theory Spec2Isabelle
  imports Main "HOL-Library.AList" "HOL-Library.Sublist"
begin

section \<open>Python values\<close>

text \<open>
  What \<open>json.loads\<close> can return, and what the shared record \<open>data\<close> holds. A dict is
  an association list in insertion order; numbers are integers (the fields the code reads
  are ids, sizes and status codes).
\<close>

datatype json =
    JNull
  | JBool bool
  | JInt int
  | JStr string
  | JList "json list"
  | JObj "(string \<times> json) list"

text \<open>
  The exceptions of the code. \<open>ValueError\<close>, \<open>LookupError\<close> and \<open>KeyError\<close> carry their
  argument. \<open>StandardError\<close> (the empty-response error, Python 2) is raised with a
  rendering of the whole \<open>params\<close> dict, whose order Python 2 does not fix: the message
  is left out. \<open>TransportError\<close> stands for whatever the transport raises.
  \<open>Unmodelled\<close> marks the one place where Python's duck typing accepts a value that this
  value model cannot follow (see \<open>dict_update\<close>).
\<close>

datatype error =
    StandardError
  | ValueError string
  | LookupError string
  | KeyError string
  | IndexError
  | AttributeError
  | TypeError
  | UnicodeDecodeError
  | NotImplementedError string
  | TransportError string
  | Unmodelled

text \<open>Python truthiness: \<open>if x\<close>, \<open>not x\<close>, \<open>x or y\<close>.\<close>

fun truthy :: "json \<Rightarrow> bool" where
  "truthy JNull = False"
| "truthy (JBool b) = b"
| "truthy (JInt n) = (n \<noteq> 0)"
| "truthy (JStr s) = (s \<noteq> [])"
| "truthy (JList xs) = (xs \<noteq> [])"
| "truthy (JObj kvs) = (kvs \<noteq> [])"

definition py_or :: "json \<Rightarrow> json \<Rightarrow> json" where
  "py_or a b = (if truthy a then a else b)"

text \<open>\<open>d.get(k)\<close> on a dict: the value, or None.\<close>

definition dict_get :: "(string \<times> json) list \<Rightarrow> string \<Rightarrow> json" where
  "dict_get kvs k = (case map_of kvs k of None \<Rightarrow> JNull | Some v \<Rightarrow> v)"

text \<open>\<open>s in x\<close> for a string \<open>s\<close>: key of a dict, element of a list, substring of a string;
  anything else is not iterable.\<close>

fun py_in :: "string \<Rightarrow> json \<Rightarrow> error + bool" where
  "py_in s (JObj kvs) = Inr (map_of kvs s \<noteq> None)"
| "py_in s (JList xs) = Inr (JStr s \<in> set xs)"
| "py_in s (JStr t) = Inr (sublist s t)"
| "py_in s v = Inl TypeError"

text \<open>\<open>s.replace(old, new)\<close> for a non-empty \<open>old\<close>: leftmost non-overlapping occurrences.
  The counter is the number of characters of a matched occurrence still to be dropped.\<close>

fun replace_from :: "nat \<Rightarrow> string \<Rightarrow> string \<Rightarrow> string \<Rightarrow> string" where
  "replace_from k old new [] = []"
| "replace_from (Suc k) old new (c # cs) = replace_from k old new cs"
| "replace_from 0 old new (c # cs) =
     (if prefix old (c # cs) then new @ replace_from (length old - 1) old new cs
      else c # replace_from 0 old new cs)"

definition str_replace :: "string \<Rightarrow> string \<Rightarrow> string \<Rightarrow> string" where
  "str_replace old new s = replace_from 0 old new s"

text \<open>\<open>s.split(sep)\<close> for a one-character separator: \<open>''.split('/') = ['']\<close>,
  \<open>'/'.split('/') = ['', '']\<close>.\<close>

fun str_split :: "char \<Rightarrow> string \<Rightarrow> string list" where
  "str_split sep [] = [ [] ]"
| "str_split sep (c # cs) =
     (if c = sep then [] # str_split sep cs
      else (case str_split sep cs of
              [] \<Rightarrow> [ [c] ]
            | p # ps \<Rightarrow> (c # p) # ps))"

text \<open>\<open>sep.join(parts)\<close>.\<close>

fun str_join :: "string \<Rightarrow> string list \<Rightarrow> string" where
  "str_join sep [] = []"
| "str_join sep [p] = p"
| "str_join sep (p # q # ps) = p @ sep @ str_join sep (q # ps)"

text \<open>\<open>line[:n]\<close>: a negative \<open>n\<close> counts from the end.\<close>

definition py_take :: "int \<Rightarrow> 'a list \<Rightarrow> 'a list" where
  "py_take n xs = (if 0 \<le> n then take (nat n) xs else take (length xs - nat (- n)) xs)"

section \<open>Instance state\<close>

text \<open>The body the transport returns: None, text, or bytes.\<close>

datatype body = NoBody | Text string | Bytes string

fun body_truthy :: "body \<Rightarrow> bool" where
  "body_truthy NoBody = False"
| "body_truthy (Text s) = (s \<noteq> [])"
| "body_truthy (Bytes s) = (s \<noteq> [])"

record req_info =
  status :: int
  content :: string

text \<open>One cache entry, the dict \<open>cache[action]\<close>: it starts as \<open>{}\<close> and gets its keys one
  at a time, so each key can be missing (\<open>None\<close> here is a missing key).\<close>

record cache_entry =
  query :: "string option"
  response :: "body option"
  info :: "req_info option"

definition empty_entry :: cache_entry where
  "empty_entry = \<lparr>query = None, response = None, info = None\<rparr>"

record flags_rec =
  silent :: bool
  skip :: "string list"
  verbose :: bool

text \<open>\<open>params\<close>: \<open>variant\<close> and \<open>wiki\<close> hold a string or None; \<open>title\<close> and \<open>endpoint\<close> are
  keys that may be missing (\<open>None\<close> here), read with \<open>params.get\<close> or \<open>params[...]\<close>.\<close>

record params_rec =
  lang :: string
  variant :: "string option"
  wiki :: "string option"
  title :: "string option"
  endpoint :: "string option"

text \<open>The instance. \<open>diag\<close> is the diagnostic stream (what \<open>utils.stderr\<close> has printed),
  \<open>sent\<close> the queries handed to the transport, one per network call, in order.\<close>

record wpstate =
  cache :: "(string \<times> cache_entry) list"
  data :: "(string \<times> json) list"
  flags :: flags_rec
  params :: params_rec
  diag :: "string list"
  sent :: "string list"

text \<open>The request object \<open>WPToolsRequest(silent, verbose, proxy, timeout)\<close>.\<close>

record request =
  r_silent :: bool
  r_verbose :: bool
  r_proxy :: "string option"
  r_timeout :: int

text \<open>
  The collaborators that are not in the source tree, as parameters:
  \<^item> \<open>json_loads\<close>: \<open>utils.json_loads\<close>; \<open>None\<close> is its \<open>ValueError\<close>;
  \<^item> \<open>decode_utf8\<close>: \<open>bytes.decode('utf-8')\<close>; \<open>None\<close> is \<open>UnicodeDecodeError\<close>;
  \<^item> \<open>http_get\<close>: \<open>WPToolsRequest.get\<close> together with the \<open>info\<close> it leaves; its first
    argument is the number of calls made before, so successive calls may answer
    differently;
  \<^item> \<open>restbase_query\<close>: \<open>WPToolsQuery(lang, wiki, variant).restbase(endpoint)\<close>;
  \<^item> \<open>wikidata_url\<close>: \<open>utils.wikidata_url\<close>;
  \<^item> \<open>urlparse\<close>: scheme and netloc of a URL;
  \<^item> \<open>py_str\<close>: Python's \<open>'%s' % value\<close>;
  \<^item> \<open>dump\<close>: the lines \<open>show\<close> builds from the record (source lines 163 to 205);
  \<^item> \<open>MAXWIDTH\<close>, \<open>RPAD\<close>: the constants of \<open>WPToolsQuery\<close>.
\<close>

record env =
  json_loads :: "body \<Rightarrow> json option"
  decode_utf8 :: "string \<Rightarrow> string option"
  http_get :: "nat \<Rightarrow> request \<Rightarrow> string \<Rightarrow> error + body \<times> req_info"
  restbase_query :: "string \<Rightarrow> string option \<Rightarrow> string option \<Rightarrow> string \<Rightarrow> error + string"
  wikidata_url :: "json \<Rightarrow> error + json"
  urlparse :: "string \<Rightarrow> string \<times> string"
  py_str :: "json \<Rightarrow> string"
  dump :: "wpstate \<Rightarrow> string list"
  MAXWIDTH :: int
  RPAD :: int

text \<open>The two abstract methods of the core class, supplied by a subclass.\<close>

record methods =
  m_query :: "string \<Rightarrow> wpstate \<Rightarrow> error + string"
  m_set_data :: "string \<Rightarrow> wpstate \<Rightarrow> (error + unit) \<times> wpstate"

section \<open>core.py\<close>

text \<open>
  Modelled from the spec: \<open>utils.stderr(msg, silent=False)\<close> is not in the source tree.
  The spec sends every notice to the diagnostic stream and suppresses it when silent is
  set. The flag defaults to not silent: \<open>prettyprint\<close> calls it with the line alone, and
  \<open>show(force=True)\<close> has to print through it on a silent instance.
\<close>

definition stderr :: "string \<Rightarrow> bool \<Rightarrow> wpstate \<Rightarrow> wpstate" where
  "stderr msg sil st = (if sil then st else st\<lparr>diag := diag st @ [msg]\<rparr>)"

definition prettyprint :: "env \<Rightarrow> string list \<Rightarrow> wpstate \<Rightarrow> wpstate" where
  "prettyprint env datastr st =
     (let maxwidth = MAXWIDTH env;
          rpad = RPAD env;
          extent = maxwidth - (rpad + 2)
      in foldl (\<lambda>s line.
                  stderr (if int (length line) \<ge> maxwidth then py_take extent line @ ''...''
                          else line) False s)
               st datastr)"

definition WPTools_show :: "env \<Rightarrow> bool \<Rightarrow> wpstate \<Rightarrow> wpstate" where
  "WPTools_show env force st =
     (if silent (flags st) \<and> \<not> force then st
      else if data st = [] then st
      else prettyprint env (dump env st) st)"

definition cached :: "wpstate \<Rightarrow> string \<Rightarrow> bool" where
  "cached st action = (map_of (cache st) action \<noteq> None)"

definition WPTools_request :: "string option \<Rightarrow> int \<Rightarrow> wpstate \<Rightarrow> request" where
  "WPTools_request proxy timeout st =
     \<lparr>r_silent = silent (flags st), r_verbose = verbose (flags st),
      r_proxy = proxy, r_timeout = timeout\<rparr>"

text \<open>\<open>_get\<close>: the result is the exception raised, if any, and the instance as it is left.\<close>

definition WPTools_get ::
  "env \<Rightarrow> methods \<Rightarrow> string \<Rightarrow> bool \<Rightarrow> string option \<Rightarrow> int \<Rightarrow> wpstate
     \<Rightarrow> (error + unit) \<times> wpstate" where
  "WPTools_get env m action show proxy timeout st =
     (if cached st action \<and> action \<noteq> ''imageinfo'' then
        (Inr (), stderr (''+ '' @ action @ '' results in cache'') (silent (flags st)) st)
      else
        (let st1 = (if cached st action then st
                    else st\<lparr>cache := AList.update action empty_entry (cache st)\<rparr>)
         in if action \<in> set (skip (flags st1)) then
              (Inr (), stderr (''+ skipping '' @ action) False st1)
            else
              (case m_query m action st1 of
                 Inl e \<Rightarrow> (Inl e, st1)
               | Inr qstr \<Rightarrow>
                   (let st2 = st1\<lparr>cache := AList.map_entry action
                                  (\<lambda>c. c\<lparr>query := Some qstr\<rparr>) (cache st1)\<rparr>;
                        req = WPTools_request proxy timeout st2;
                        st3 = st2\<lparr>sent := sent st2 @ [qstr]\<rparr>
                    in case http_get env (length (sent st2)) req qstr of
                         Inl e \<Rightarrow> (Inl e, st3)
                       | Inr (resp, nfo) \<Rightarrow>
                           (let st4 = st3\<lparr>cache := AList.map_entry action
                                          (\<lambda>c. c\<lparr>response := Some resp, info := Some nfo\<rparr>)
                                          (cache st3)\<rparr>
                            in case m_set_data m action st4 of
                                 (Inl e, st5) \<Rightarrow> (Inl e, st5)
                               | (Inr u, st5) \<Rightarrow>
                                   (Inr (), if show then WPTools_show env False st5
                                            else st5))))))"

text \<open>\<open>_load_response\<close>: reads the cache only, so it returns the exception or the parsed
  structure.\<close>

definition WPTools_load_response :: "env \<Rightarrow> string \<Rightarrow> wpstate \<Rightarrow> error + json" where
  "WPTools_load_response env action st =
     (case map_of (cache st) action of
        None \<Rightarrow> Inl (KeyError action)
      | Some c \<Rightarrow>
         (case query c of
            None \<Rightarrow> Inl (KeyError ''query'')
          | Some q \<Rightarrow>
             (let qry = str_replace ''&format=json'' '''' q in
              case response c of
                None \<Rightarrow> Inl (KeyError ''response'')
              | Some r \<Rightarrow>
                 if \<not> body_truthy r then Inl StandardError
                 else
                   (case json_loads env r of
                      None \<Rightarrow> Inl (ValueError qry)
                    | Some (JObj kvs) \<Rightarrow>
                       if truthy (dict_get kvs ''error'') then Inl (LookupError qry)
                       else if action = ''parse'' \<and> \<not> truthy (dict_get kvs ''parse'')
                         then Inl (LookupError qry)
                       else if action = ''wikidata'' then
                         (case py_in ''-1'' (dict_get kvs ''entities'') of
                            Inl e \<Rightarrow> Inl e
                          | Inr b \<Rightarrow> if b then Inl (LookupError qry) else Inr (JObj kvs))
                       else Inr (JObj kvs)
                    | Some other \<Rightarrow> Inl AttributeError))))"

text \<open>The abstract methods as the core class has them.\<close>

definition WPTools_methods :: methods where
  "WPTools_methods =
     \<lparr>m_query = (\<lambda>action st. Inl (NotImplementedError ''A subclass must implement this method.'')),
      m_set_data = (\<lambda>action st.
         (Inl (NotImplementedError ''A subclass must implement this method.''), st))\<rparr>"

section \<open>restbase.py\<close>

definition str_truthy :: "string option \<Rightarrow> bool" where
  "str_truthy s = (case s of None \<Rightarrow> False | Some t \<Rightarrow> t \<noteq> [])"

text \<open>\<open>_parse_endpoint\<close>: \<open>segments\<close> are the non-empty pieces of the endpoint, \<open>rooted\<close>
  puts the root token in front unless it is there.\<close>

definition segments :: "string \<Rightarrow> string list" where
  "segments ep = filter (\<lambda>x. x \<noteq> []) (str_split CHR ''/'' ep)"

definition rooted :: "string list \<Rightarrow> string list" where
  "rooted parts = (if hd parts \<noteq> ''page'' then ''page'' # parts else parts)"

definition RESTBase_parse_endpoint ::
  "string option \<Rightarrow> string option \<Rightarrow> wpstate \<Rightarrow> (error + string) \<times> wpstate" where
  "RESTBase_parse_endpoint ep ttl st =
     (if \<not> str_truthy ep then (Inr ''/page/'', st)
      else
        (let parts = segments (the ep) in
         if parts = [] then (Inl IndexError, st)
         else
           (let parts1 = rooted parts in
            if length parts1 = 2 \<and> \<not> str_truthy ttl then (Inl (ValueError ''need a title.''), st)
            else
              (let parts2 = (if length parts1 = 2 then parts1 @ [the ttl] else parts1) in
               if length parts2 = 3 then
                 (if str_truthy ttl then
                    (if the ttl \<noteq> parts2 ! 2 then (Inl (ValueError ''titles conflict.''), st)
                     else (Inr (''/'' @ str_join ''/'' parts2), st))
                  else (Inr (''/'' @ str_join ''/'' parts2),
                        st\<lparr>params := (params st)\<lparr>title := Some (last parts2)\<rparr>\<rparr>))
               else (Inr (''/'' @ str_join ''/'' parts2), st)))))"

text \<open>The constructors. \<open>kwargs.get(k)\<close> is \<open>None\<close> for a missing keyword.\<close>

record kwargs =
  k_silent :: "bool option"
  k_skip :: "string list option"
  k_verbose :: "bool option"
  k_lang :: "string option"
  k_variant :: "string option"
  k_wiki :: "string option"
  k_endpoint :: "string option"

definition WPTools_init :: "kwargs \<Rightarrow> wpstate" where
  "WPTools_init kw =
     \<lparr>cache = [], data = [],
      flags = \<lparr>silent = (case k_silent kw of None \<Rightarrow> False | Some b \<Rightarrow> b),
               skip = (case k_skip kw of None \<Rightarrow> [] | Some l \<Rightarrow> l),
               verbose = (case k_verbose kw of None \<Rightarrow> False | Some b \<Rightarrow> b)\<rparr>,
      params = \<lparr>lang = (if str_truthy (k_lang kw) then the (k_lang kw) else ''en''),
                variant = k_variant kw, wiki = k_wiki kw, title = None, endpoint = None\<rparr>,
      diag = [], sent = []\<rparr>"

definition RESTBase_init :: "kwargs \<Rightarrow> error + wpstate" where
  "RESTBase_init kw =
     (let st = WPTools_init kw in
      case RESTBase_parse_endpoint (k_endpoint kw) (title (params st)) st of
        (Inl e, st1) \<Rightarrow> Inl e
      | (Inr ep, st1) \<Rightarrow> Inr (st1\<lparr>params := (params st1)\<lparr>endpoint := Some ep\<rparr>\<rparr>))"

text \<open>\<open>_handle_response\<close>: \<open>Inr None\<close> is the Python \<open>return\<close> without a value.\<close>

definition set_data :: "string \<Rightarrow> json \<Rightarrow> wpstate \<Rightarrow> wpstate" where
  "set_data k v st = st\<lparr>data := AList.update k v (data st)\<rparr>"

definition RESTBase_handle_response :: "env \<Rightarrow> wpstate \<Rightarrow> (error + json option) \<times> wpstate" where
  "RESTBase_handle_response env st =
     (case map_of (cache st) ''restbase'' of
        None \<Rightarrow> (Inl (KeyError ''restbase''), st)
      | Some c \<Rightarrow>
         (case info c of
            None \<Rightarrow> (Inl (KeyError ''info''), st)
          | Some nfo \<Rightarrow>
             if prefix ''text/html'' (content nfo) then
               (case response c of
                  None \<Rightarrow> (Inl (KeyError ''response''), st)
                | Some NoBody \<Rightarrow> (Inr None, set_data ''html'' JNull st)
                | Some (Text s) \<Rightarrow> (Inr None, set_data ''html'' (JStr s) st)
                | Some (Bytes b) \<Rightarrow>
                   (case decode_utf8 env b of
                      None \<Rightarrow> (Inl UnicodeDecodeError, st)
                    | Some s \<Rightarrow> (Inr None, set_data ''html'' (JStr s) st)))
             else
               (case WPTools_load_response env ''restbase'' st of
                  Inl e \<Rightarrow> (Inl e, st)
                | Inr res \<Rightarrow>
                   if status nfo = 404 then
                     (case query c of
                        None \<Rightarrow> (Inl (KeyError ''query''), st)
                      | Some q \<Rightarrow> (Inl (LookupError q), st))
                   else if endpoint (params st) = Some ''/page/'' then
                     (case res of
                        JObj kvs \<Rightarrow>
                          (Inr None,
                           (stderr (''RESTBase /page/ entry points: ''
                                     @ py_str env (dict_get kvs ''items'')) False st)
                             \<lparr>cache := AList.delete ''restbase'' (cache st)\<rparr>)
                      | other \<Rightarrow> (Inl AttributeError, st))
                   else (Inr (Some res), st))))"

text \<open>Sequencing of two statements: an exception in the first skips the second.\<close>

definition and_then ::
  "(error + unit) \<times> wpstate \<Rightarrow> (wpstate \<Rightarrow> (error + unit) \<times> wpstate)
     \<Rightarrow> (error + unit) \<times> wpstate" where
  "and_then r f = (case r of (Inl e, st) \<Rightarrow> (Inl e, st) | (Inr u, st) \<Rightarrow> f st)"

text \<open>
  \<open>img.update(shape)\<close>. A dict overwrites and adds its keys in order. None, a boolean and a
  number are not iterable; a non-empty string iterates into one-character strings, which
  are not pairs. A non-empty list is accepted by Python when its elements are pairs, with
  keys of any hashable type: the string-keyed dicts here cannot follow that.
\<close>

fun dict_update :: "(string \<times> json) list \<Rightarrow> json \<Rightarrow> error + (string \<times> json) list" where
  "dict_update d (JObj kvs) = Inr (foldl (\<lambda>acc (k, v). AList.update k v acc) d kvs)"
| "dict_update d (JStr []) = Inr d"
| "dict_update d (JStr (c # cs)) =
     Inl (ValueError ''dictionary update sequence element #0 has length 1; 2 is required'')"
| "dict_update d (JList []) = Inr d"
| "dict_update d (JList (x # xs)) = Inl Unmodelled"
| "dict_update d v = Inl TypeError"

text \<open>\<open>self.data['image'].append(img)\<close>.\<close>

definition append_image :: "(string \<times> json) list \<Rightarrow> wpstate \<Rightarrow> (error + unit) \<times> wpstate" where
  "append_image img st =
     (case map_of (data st) ''image'' of
        None \<Rightarrow> (Inl (KeyError ''image''), st)
      | Some (JList xs) \<Rightarrow> (Inr (), set_data ''image'' (JList (xs @ [JObj img])) st)
      | Some other \<Rightarrow> (Inl AttributeError, st))"

text \<open>One \<open>if shape:\<close> block of \<open>_unpack_images\<close>; \<open>with_url\<close> is set for the two blocks
  that copy \<open>source\<close> to \<open>url\<close>.\<close>

definition unpack_shape :: "string \<Rightarrow> bool \<Rightarrow> json \<Rightarrow> wpstate \<Rightarrow> (error + unit) \<times> wpstate" where
  "unpack_shape kind with_url shape st =
     (if truthy shape then
        (case dict_update [(''kind'', JStr kind)] shape of
           Inl e \<Rightarrow> (Inl e, st)
         | Inr img \<Rightarrow>
            if with_url then
              (case shape of
                 JObj kvs \<Rightarrow>
                   append_image
                     (if truthy (dict_get kvs ''source'')
                      then AList.update ''url'' (dict_get kvs ''source'') img else img) st
               | other \<Rightarrow> (Inl AttributeError, st))
            else append_image img st)
      else (Inr (), st))"

definition RESTBase_unpack_images ::
  "(string \<times> json) list \<Rightarrow> wpstate \<Rightarrow> (error + unit) \<times> wpstate" where
  "RESTBase_unpack_images rdata st =
     (let image = dict_get rdata ''image'';
          originalimage = dict_get rdata ''originalimage'';
          thumbnail = dict_get rdata ''thumbnail'';
          st1 = (if (truthy image \<or> truthy originalimage \<or> truthy thumbnail)
                    \<and> map_of (data st) ''image'' = None
                 then set_data ''image'' (JList []) st else st)
      in and_then (and_then (unpack_shape ''restbase-image'' False image st1)
                     (unpack_shape ''restbase-original'' True originalimage))
           (unpack_shape ''restbase-thumb'' True thumbnail))"

text \<open>The statements of \<open>_set_restbase_data\<close> after the response is there, one definition
  per block of the source.\<close>

definition set_plain_fields :: "(string \<times> json) list \<Rightarrow> wpstate \<Rightarrow> wpstate" where
  "set_plain_fields res st =
     set_data ''exhtml'' (dict_get res ''extract_html'')
       (set_data ''exrest'' (dict_get res ''extract'')
          (set_data ''pageid'' (py_or (dict_get res ''id'') (dict_get res ''pageid''))
             (set_data ''description'' (dict_get res ''description'') st)))"

definition set_modified :: "(string \<times> json) list \<Rightarrow> wpstate \<Rightarrow> (error + unit) \<times> wpstate" where
  "set_modified res st =
     (let lastmodified = dict_get res ''lastmodified'' in
      if truthy lastmodified then
        (case map_of (data st) ''modified'' of
           None \<Rightarrow> (Inr (), set_data ''modified'' (JObj [(''page'', lastmodified)]) st)
         | Some (JObj m) \<Rightarrow>
             (Inr (), set_data ''modified'' (JObj (AList.update ''page'' lastmodified m)) st)
         | Some other \<Rightarrow> (Inl AttributeError, st))
      else (Inr (), st))"

text \<open>\<open>x[0]\<close>: a dict from JSON has string keys only, so the key 0 is missing.\<close>

fun py_first :: "json \<Rightarrow> error + json" where
  "py_first (JList (x # xs)) = Inr x"
| "py_first (JList []) = Inl IndexError"
| "py_first (JStr (c # cs)) = Inr (JStr [c])"
| "py_first (JStr []) = Inl IndexError"
| "py_first (JObj kvs) = Inl (KeyError ''0'')"
| "py_first v = Inl TypeError"

definition set_lead :: "(string \<times> json) list \<Rightarrow> wpstate \<Rightarrow> (error + unit) \<times> wpstate" where
  "set_lead res st =
     (if truthy (dict_get res ''sections'') then
        (case py_first (dict_get res ''sections'') of
           Inl e \<Rightarrow> (Inl e, st)
         | Inr (JObj lead) \<Rightarrow> (Inr (), set_data ''lead'' (dict_get lead ''text'') st)
         | Inr other \<Rightarrow> (Inl AttributeError, st))
      else (Inr (), st))"

definition set_title :: "(string \<times> json) list \<Rightarrow> wpstate \<Rightarrow> (error + unit) \<times> wpstate" where
  "set_title res st =
     (let ttl = py_or (dict_get res ''title'') (dict_get res ''normalizedtitle'') in
      if truthy ttl then
        (case ttl of
           JStr s \<Rightarrow> (Inr (), set_data ''title'' (JStr (str_replace '' '' ''_'' s)) st)
         | other \<Rightarrow> (Inl AttributeError, st))
      else (Inr (), st))"

definition set_wikibase :: "env \<Rightarrow> (string \<times> json) list \<Rightarrow> wpstate \<Rightarrow> (error + unit) \<times> wpstate" where
  "set_wikibase env res st =
     (let wikibase = dict_get res ''wikibase_item'' in
      if truthy wikibase then
        (let st1 = set_data ''wikibase'' wikibase st in
         case wikidata_url env wikibase of
           Inl e \<Rightarrow> (Inl e, st1)
         | Inr u \<Rightarrow> (Inr (), set_data ''wikidata_url'' u st1))
      else (Inr (), st))"

definition set_urls :: "env \<Rightarrow> wpstate \<Rightarrow> (error + unit) \<times> wpstate" where
  "set_urls env st =
     (case map_of (cache st) ''restbase'' of
        None \<Rightarrow> (Inl (KeyError ''restbase''), st)
      | Some c \<Rightarrow>
         (case query c of
            None \<Rightarrow> (Inl (KeyError ''query''), st)
          | Some q \<Rightarrow>
             (case title (params st) of
                None \<Rightarrow> (Inl (KeyError ''title''), st)
              | Some t \<Rightarrow>
                 (let durl = fst (urlparse env q) @ ''://'' @ snd (urlparse env q)
                               @ ''/wiki/'' @ t
                  in (Inr (), set_data ''url_raw'' (JStr (durl @ ''?action=raw''))
                                (set_data ''url'' (JStr durl) st))))))"

definition RESTBase_set_restbase_data :: "env \<Rightarrow> wpstate \<Rightarrow> (error + unit) \<times> wpstate" where
  "RESTBase_set_restbase_data env st =
     (case RESTBase_handle_response env st of
        (Inl e, st1) \<Rightarrow> (Inl e, st1)
      | (Inr None, st1) \<Rightarrow> (Inr (), st1)
      | (Inr (Some (JObj res)), st1) \<Rightarrow>
          and_then (and_then (and_then (and_then (and_then
            (set_modified res (set_plain_fields res st1))
            (set_lead res))
            (set_title res))
            (set_wikibase env res))
            (set_urls env))
            (RESTBase_unpack_images res)
      | (Inr (Some other), st1) \<Rightarrow> (Inl AttributeError, st1))"

text \<open>\<open>_query\<close> and \<open>_set_data\<close> of the subclass.\<close>

definition RESTBase_query :: "env \<Rightarrow> string \<Rightarrow> wpstate \<Rightarrow> error + string" where
  "RESTBase_query env action st =
     (case endpoint (params st) of
        None \<Rightarrow> Inl (KeyError ''endpoint'')
      | Some ep \<Rightarrow>
          restbase_query env (lang (params st)) (wiki (params st)) (variant (params st)) ep)"

definition RESTBase_methods :: "env \<Rightarrow> methods" where
  "RESTBase_methods env =
     \<lparr>m_query = RESTBase_query env,
      m_set_data = (\<lambda>action. RESTBase_set_restbase_data env)\<rparr>"

text \<open>\<open>get_restbase\<close>; the instance it returns is the state.\<close>

definition RESTBase_get_restbase ::
  "env \<Rightarrow> string option \<Rightarrow> bool \<Rightarrow> string option \<Rightarrow> int \<Rightarrow> wpstate
     \<Rightarrow> (error + unit) \<times> wpstate" where
  "RESTBase_get_restbase env ep show proxy timeout st =
     (if str_truthy ep then
        (case RESTBase_parse_endpoint ep (title (params st)) st of
           (Inl e, st1) \<Rightarrow> (Inl e, st1)
         | (Inr ep1, st1) \<Rightarrow>
             WPTools_get env (RESTBase_methods env) ''restbase'' show proxy timeout
               (st1\<lparr>params := (params st1)\<lparr>endpoint := Some ep1\<rparr>\<rparr>))
      else WPTools_get env (RESTBase_methods env) ''restbase'' show proxy timeout st)"

section \<open>Sample instances\<close>

text \<open>An instance built with no keyword arguments.\<close>

definition kw0 :: kwargs where
  "kw0 = \<lparr>k_silent = None, k_skip = None, k_verbose = None, k_lang = None,
          k_variant = None, k_wiki = None, k_endpoint = None\<rparr>"

definition ok_json :: req_info where
  "ok_json = \<lparr>status = 200, content = ''application/json''\<rparr>"

text \<open>
  A sample environment. The parser knows three bodies by name: the root listing, a page
  summary, and a reply of the query API without a \<open>parse\<close> key; every other body is
  malformed. The transport knows three URLs and fails on every other one.
\<close>

definition sample_env :: env where
  "sample_env =
     \<lparr>json_loads = map_of
        [(Text ''listing'', JObj [(''items'', JList [JStr ''html'', JStr ''summary''])]),
         (Text ''summary'',
            JObj [(''title'', JStr ''Douglas Adams''),
                  (''extract'', JStr ''English writer''),
                  (''originalimage'', JObj [(''source'', JStr ''o.jpg''), (''width'', JInt 640)]),
                  (''thumbnail'', JObj [(''source'', JStr ''t.jpg''), (''width'', JInt 64)])]),
         (Text ''batch'', JObj [(''batchcomplete'', JBool True)])],
      decode_utf8 = Some,
      http_get = (\<lambda>n req q.
         case map_of
           [(''https://en.wikipedia.org/api/rest_v1/page/'', (Text ''listing'', ok_json)),
            (''https://en.wikipedia.org/api/rest_v1/page/summary/Douglas_Adams'',
               (Text ''summary'', ok_json)),
            (''https://en.wikipedia.org/api/rest_v1/page/summary/Broken'',
               (Text ''{ truncated'', ok_json))] q of
           None \<Rightarrow> Inl (TransportError ''no route'')
         | Some a \<Rightarrow> Inr a),
      restbase_query = (\<lambda>lng wk var ep. Inr (''https://'' @ lng @ ''.wikipedia.org/api/rest_v1'' @ ep)),
      wikidata_url = (\<lambda>w. case w of JStr s \<Rightarrow> Inr (JStr (''https://www.wikidata.org/wiki/'' @ s))
                               | other \<Rightarrow> Inl TypeError),
      urlparse = (\<lambda>q. (''https'', ''en.wikipedia.org'')),
      py_str = (\<lambda>v. ''[...]''),
      dump = (\<lambda>st. map fst (data st)),
      MAXWIDTH = 72, RPAD = 4\<rparr>"

text \<open>The instance \<open>WPToolsRESTBase()\<close>, and one that is silent and skips \<open>restbase\<close>.\<close>

definition root_instance :: wpstate where
  "root_instance =
     (WPTools_init kw0)\<lparr>params := (params (WPTools_init kw0))\<lparr>endpoint := Some ''/page/''\<rparr>\<rparr>"

definition skip_instance :: wpstate where
  "skip_instance =
     root_instance\<lparr>flags := (flags root_instance)\<lparr>silent := True, skip := [''restbase'']\<rparr>\<rparr>"

text \<open>An instance that holds a reply for the \<open>parse\<close> action.\<close>

definition parse_cached :: wpstate where
  "parse_cached = root_instance\<lparr>cache :=
     [(''parse'',
       \<lparr>query = Some ''https://en.wikipedia.org/w/api.php?action=parse&format=json&page=X'',
        response = Some (Text ''batch''), info = Some ok_json\<rparr>)]\<rparr>"

section \<open>Frame conditions\<close>

text \<open>\<open>only_data st st'\<close>: \<open>st'\<close> differs from \<open>st\<close> in the shared record at most.\<close>

definition only_data :: "wpstate \<Rightarrow> wpstate \<Rightarrow> bool" where
  "only_data st st' = (st' = st\<lparr>data := data st'\<rparr>)"

text \<open>An instance in the middle of a root-listing fetch: the reply is cached and
  \<open>_handle_response\<close> is about to run.\<close>

definition listing_cached :: wpstate where
  "listing_cached = root_instance\<lparr>cache :=
     [(''restbase'',
       \<lparr>query = Some ''https://en.wikipedia.org/api/rest_v1/page/'',
        response = Some (Text ''listing''), info = Some ok_json\<rparr>)],
     sent := [''https://en.wikipedia.org/api/rest_v1/page/'']\<rparr>"

text \<open>An instance set up for \<open>/page/summary/Broken\<close>, whose reply is cut short.\<close>

definition broken_instance :: wpstate where
  "broken_instance = root_instance\<lparr>params :=
     (params root_instance)\<lparr>title := Some ''Broken'', endpoint := Some ''/page/summary/Broken''\<rparr>\<rparr>"

text \<open>An instance resolved to \<open>/page/summary/Douglas_Adams\<close>.\<close>

definition adams_instance :: wpstate where
  "adams_instance = root_instance\<lparr>params :=
     (params root_instance)\<lparr>title := Some ''Douglas_Adams'',
                             endpoint := Some ''/page/summary/Douglas_Adams''\<rparr>\<rparr>"

text \<open>An instance that skips \<open>imageinfo\<close>.\<close>

definition imageinfo_skipped :: wpstate where
  "imageinfo_skipped = root_instance\<lparr>flags := (flags root_instance)\<lparr>skip := [''imageinfo'']\<rparr>\<rparr>"

section \<open>Image records\<close>

text \<open>The record \<open>_unpack_images\<close> builds from a shape that is a dict: the tag first, then
  the keys of the shape over it, then \<open>url\<close> from a non-empty \<open>source\<close> for the two shapes
  of \<open>/page/summary\<close>.\<close>

definition image_record :: "string \<Rightarrow> bool \<Rightarrow> (string \<times> json) list \<Rightarrow> (string \<times> json) list" where
  "image_record kind with_url kvs =
     (let img = foldl (\<lambda>acc (k, v). AList.update k v acc) [(''kind'', JStr kind)] kvs
      in if with_url \<and> truthy (dict_get kvs ''source'')
         then AList.update ''url'' (dict_get kvs ''source'') img else img)"

text \<open>A reply whose two image shapes bring a \<open>kind\<close> key of their own, and one with the
  two shapes of a page summary.\<close>

definition self_tagged_reply :: "(string \<times> json) list" where
  "self_tagged_reply =
     [(''originalimage'', JObj [(''kind'', JStr ''photo''), (''source'', JStr ''o.jpg'')]),
      (''thumbnail'', JObj [(''kind'', JStr ''photo''), (''source'', JStr ''t.jpg'')])]"

definition summary_reply :: "(string \<times> json) list" where
  "summary_reply =
     [(''originalimage'', JObj [(''source'', JStr ''o.jpg''), (''width'', JInt 640)]),
      (''thumbnail'', JObj [(''source'', JStr ''t.jpg''), (''width'', JInt 64)])]"

text \<open>A reply of \<open>/page/mobile-sections-lead\<close> with the generic image shape.\<close>

definition lead_reply :: "(string \<times> json) list" where
  "lead_reply = [(''image'', JObj [(''file'', JStr ''Douglas_adams_portrait.jpg'')])]"

section \<open>Keys the normalizer writes\<close>




section \<open>Endpoint resolution\<close>

lemma split_only_seps:
  "\<forall>c\<in>set ep. c = sep \<Longrightarrow> \<forall>p\<in>set (str_split sep ep). p = []"
  by (induction ep) auto

lemma segments_only_seps: "\<forall>c\<in>set ep. c = CHR ''/'' \<Longrightarrow> segments ep = []"
  using split_only_seps[of ep "CHR ''/''"] by (auto simp: segments_def filter_empty_conv)

lemma segments_samples [simp]: "segments ''summary'' = [''summary'']" "segments ''page/summary/X'' = [''page'', ''summary'', ''X'']"
  "segments ''page/summary/Y'' = [''page'', ''summary'', ''Y'']"
  by (simp_all add: segments_def)

lemma parse_three_segments:
  assumes "ep \<noteq> []" "rooted (segments ep) = [a, b, c]" "\<not> str_truthy ttl"
  shows "RESTBase_parse_endpoint (Some ep) ttl st
           = (Inr (''/'' @ a @ ''/'' @ b @ ''/'' @ c),
              st\<lparr>params := (params st)\<lparr>title := Some c\<rparr>\<rparr>)"
proof -
  have ne: "segments ep \<noteq> []"
    using assms(2) by (auto simp: rooted_def split: if_splits)
  have tr: "str_truthy (Some ep)"
    using assms(1) by (simp add: str_truthy_def)
  show ?thesis
    using ne tr assms(2,3) by (simp add: RESTBase_parse_endpoint_def Let_def)
qed

text \<open>
  Claim C2. \<open>_parse_endpoint\<close> on the five inputs of the specification: no endpoint gives
  the root path; \<open>summary\<close> with title \<open>X\<close> and \<open>page/summary/X\<close> with title \<open>X\<close> both give
  \<open>/page/summary/X\<close>; \<open>page/summary/Y\<close> with title \<open>X\<close> raises the conflicting-title
  error; \<open>summary\<close> with no title raises the missing-title error. And whenever three
  segments result and no title is known, the path is returned and the third segment
  becomes \<open>params['title']\<close>.
\<close>

theorem C2_endpoint_resolution:
  "RESTBase_parse_endpoint None (Some ''X'') st = (Inr ''/page/'', st)
   \<and> RESTBase_parse_endpoint (Some ''summary'') (Some ''X'') st = (Inr ''/page/summary/X'', st)
   \<and> RESTBase_parse_endpoint (Some ''page/summary/X'') (Some ''X'') st
        = (Inr ''/page/summary/X'', st)
   \<and> RESTBase_parse_endpoint (Some ''page/summary/Y'') (Some ''X'') st
        = (Inl (ValueError ''titles conflict.''), st)
   \<and> RESTBase_parse_endpoint (Some ''summary'') None st = (Inl (ValueError ''need a title.''), st)
   \<and> (\<forall>ep a b c. ep \<noteq> [] \<longrightarrow> rooted (segments ep) = [a, b, c] \<longrightarrow> \<not> str_truthy ttl \<longrightarrow>
         RESTBase_parse_endpoint (Some ep) ttl st
           = (Inr (''/'' @ a @ ''/'' @ b @ ''/'' @ c),
              st\<lparr>params := (params st)\<lparr>title := Some c\<rparr>\<rparr>))"
proof (intro conjI allI impI)
  show "RESTBase_parse_endpoint None (Some ''X'') st = (Inr ''/page/'', st)"
    by (simp add: RESTBase_parse_endpoint_def str_truthy_def)
  show "RESTBase_parse_endpoint (Some ''summary'') (Some ''X'') st = (Inr ''/page/summary/X'', st)"
    by (simp add: RESTBase_parse_endpoint_def str_truthy_def rooted_def)
  show "RESTBase_parse_endpoint (Some ''page/summary/X'') (Some ''X'') st
          = (Inr ''/page/summary/X'', st)"
    by (simp add: RESTBase_parse_endpoint_def str_truthy_def rooted_def)
  show "RESTBase_parse_endpoint (Some ''page/summary/Y'') (Some ''X'') st
          = (Inl (ValueError ''titles conflict.''), st)"
    by (simp add: RESTBase_parse_endpoint_def str_truthy_def rooted_def)
  show "RESTBase_parse_endpoint (Some ''summary'') None st = (Inl (ValueError ''need a title.''), st)"
    by (simp add: RESTBase_parse_endpoint_def str_truthy_def rooted_def)
next
  fix ep a b c
  assume "ep \<noteq> []" "rooted (segments ep) = [a, b, c]" "\<not> str_truthy ttl"
  then show "RESTBase_parse_endpoint (Some ep) ttl st
           = (Inr (''/'' @ a @ ''/'' @ b @ ''/'' @ c),
              st\<lparr>params := (params st)\<lparr>title := Some c\<rparr>\<rparr>)"
    by (rule parse_three_segments)
qed

theorem C2_witness:
  "RESTBase_parse_endpoint (Some ''/page/summary/Z'') None (WPTools_init kw0)
     = (Inr ''/page/summary/Z'',
        (WPTools_init kw0)\<lparr>params := (params (WPTools_init kw0))\<lparr>title := Some ''Z''\<rparr>\<rparr>)"
proof -
  have seg: "rooted (segments ''/page/summary/Z'') = [''page'', ''summary'', ''Z'']"
    by (simp add: segments_def rooted_def)
  have nt: "\<not> str_truthy None"
    by (simp add: str_truthy_def)
  from C2_endpoint_resolution[of "WPTools_init kw0" None] seg nt
  have "RESTBase_parse_endpoint (Some ''/page/summary/Z'') None (WPTools_init kw0)
     = (Inr (''/'' @ ''page'' @ ''/'' @ ''summary'' @ ''/'' @ ''Z''),
        (WPTools_init kw0)\<lparr>params := (params (WPTools_init kw0))\<lparr>title := Some ''Z''\<rparr>\<rparr>)"
    by blast
  then show ?thesis by simp
qed

text \<open>
  Claim C10. An endpoint that is not empty and consists of path separators only leaves no
  segment, and \<open>parts[0]\<close> raises \<open>IndexError\<close>: neither the root path nor one of the two
  title errors.
\<close>

theorem C10_separator_only_endpoint_index_error:
  "ep \<noteq> [] \<Longrightarrow> \<forall>c\<in>set ep. c = CHR ''/'' \<Longrightarrow>
     RESTBase_parse_endpoint (Some ep) ttl st = (Inl IndexError, st)"
  by (simp add: RESTBase_parse_endpoint_def str_truthy_def segments_only_seps)

theorem C10_witness:
  "RESTBase_parse_endpoint (Some ''/'') (Some ''X'') (WPTools_init kw0)
     = (Inl IndexError, WPTools_init kw0)"
  using C10_separator_only_endpoint_index_error[of "''/''" "Some ''X''" "WPTools_init kw0"]
  by simp

section \<open>Response validation\<close>

lemma root_instance_reachable: "RESTBase_init kw0 = Inr root_instance"
  by (simp add: RESTBase_init_def root_instance_def RESTBase_parse_endpoint_def kw0_def
      str_truthy_def WPTools_init_def)

lemma load_response_cases:
  assumes "map_of (cache st) action = Some c" "query c = Some q" "response c = Some r"
  shows "WPTools_load_response env action st =
     (if \<not> body_truthy r then Inl StandardError
      else case json_loads env r of
             None \<Rightarrow> Inl (ValueError (str_replace ''&format=json'' '''' q))
           | Some (JObj kvs) \<Rightarrow>
               if truthy (dict_get kvs ''error'')
                 then Inl (LookupError (str_replace ''&format=json'' '''' q))
               else if action = ''parse'' \<and> \<not> truthy (dict_get kvs ''parse'')
                 then Inl (LookupError (str_replace ''&format=json'' '''' q))
               else if action = ''wikidata'' then
                 (case py_in ''-1'' (dict_get kvs ''entities'') of
                    Inl e \<Rightarrow> Inl e
                  | Inr b \<Rightarrow> if b then Inl (LookupError (str_replace ''&format=json'' '''' q))
                            else Inr (JObj kvs))
               else Inr (JObj kvs)
           | Some other \<Rightarrow> Inl AttributeError)"
  using assms by (simp add: WPTools_load_response_def Let_def)



section \<open>The fetch lifecycle\<close>

lemma foldl_stderr:
  "foldl (\<lambda>s line. stderr (g line) False s) st ls = st\<lparr>diag := diag st @ map g ls\<rparr>"
  by (induction ls arbitrary: st) (simp_all add: stderr_def)

lemma show_only_prints: "\<exists>ls. WPTools_show env force st = st\<lparr>diag := diag st @ ls\<rparr>"
proof -
  have "st = st\<lparr>diag := diag st @ []\<rparr>" by simp
  then show ?thesis
    unfolding WPTools_show_def prettyprint_def Let_def foldl_stderr by (metis (full_types))
qed

lemma show_frame [simp]:
  "cache (WPTools_show env force st) = cache st"
  "data (WPTools_show env force st) = data st"
  "sent (WPTools_show env force st) = sent st"
  "flags (WPTools_show env force st) = flags st"
  "params (WPTools_show env force st) = params st"
proof -
  obtain ls where "WPTools_show env force st = st\<lparr>diag := diag st @ ls\<rparr>"
    using show_only_prints by blast
  then show "cache (WPTools_show env force st) = cache st"
    "data (WPTools_show env force st) = data st"
    "sent (WPTools_show env force st) = sent st"
    "flags (WPTools_show env force st) = flags st"
    "params (WPTools_show env force st) = params st"
    by simp_all
qed

lemma stderr_frame [simp]:
  "cache (stderr msg sil st) = cache st"
  "data (stderr msg sil st) = data st"
  "sent (stderr msg sil st) = sent st"
  "flags (stderr msg sil st) = flags st"
  "params (stderr msg sil st) = params st"
  by (simp_all add: stderr_def)

lemma get_cache_hit:
  "cached st action \<Longrightarrow> action \<noteq> ''imageinfo'' \<Longrightarrow>
     WPTools_get env m action show proxy timeout st
       = (Inr (), stderr (''+ '' @ action @ '' results in cache'') (silent (flags st)) st)"
  by (simp add: WPTools_get_def)

lemma get_skip:
  "\<not> cached st action \<Longrightarrow> action \<in> set (skip (flags st)) \<Longrightarrow>
     WPTools_get env m action show proxy timeout st
       = (Inr (), stderr (''+ skipping '' @ action) False
                    (st\<lparr>cache := AList.update action empty_entry (cache st)\<rparr>))"
  by (simp add: WPTools_get_def)

text \<open>
  Claim C4, as the code has it. For an action of the skip-list that is not cached, \<open>_get\<close>
  returns without a network call and without touching \<open>data\<close>, but the cache does change:
  the action gets an entry, the empty dict, because the entry is created before the
  skip-list is looked at. Every other entry stays as it was.
\<close>

theorem C4_skip_listed_fetch:
  "\<not> cached st action \<Longrightarrow> action \<in> set (skip (flags st)) \<Longrightarrow>
     fst (WPTools_get env m action show proxy timeout st) = Inr ()
     \<and> sent (snd (WPTools_get env m action show proxy timeout st)) = sent st
     \<and> data (snd (WPTools_get env m action show proxy timeout st)) = data st
     \<and> map_of (cache (snd (WPTools_get env m action show proxy timeout st)))
         = (map_of (cache st))(action \<mapsto> empty_entry)"
  by (simp add: get_skip update_conv')

theorem C4_witness:
  "fst (WPTools_get sample_env (RESTBase_methods sample_env) ''restbase'' True None 0 skip_instance)
     = Inr ()
   \<and> sent (snd (WPTools_get sample_env (RESTBase_methods sample_env) ''restbase'' True None 0
                  skip_instance)) = []
   \<and> data (snd (WPTools_get sample_env (RESTBase_methods sample_env) ''restbase'' True None 0
                  skip_instance)) = []
   \<and> map_of (cache (snd (WPTools_get sample_env (RESTBase_methods sample_env) ''restbase'' True
                           None 0 skip_instance))) ''restbase''
       = Some empty_entry"
proof -
  have a: "\<not> cached skip_instance ''restbase''"
    by (simp add: cached_def skip_instance_def root_instance_def WPTools_init_def)
  have b: "''restbase'' \<in> set (skip (flags skip_instance))"
    by (simp add: skip_instance_def)
  have c: "sent skip_instance = []" "data skip_instance = []"
    by (simp_all add: skip_instance_def root_instance_def WPTools_init_def)
  from C4_skip_listed_fetch[OF a b, of sample_env "RESTBase_methods sample_env" True None 0] c
  show ?thesis by simp
qed

text \<open>The claim as stated fails: the fetch of a skipped action leaves a cache entry behind.\<close>

theorem C4_counterexample:
  "cache skip_instance = []
   \<and> cache (snd (WPTools_get sample_env (RESTBase_methods sample_env) ''restbase'' True None 0
                   skip_instance))
       = [(''restbase'', \<lparr>query = None, response = None, info = None\<rparr>)]"
  by (simp add: WPTools_get_def cached_def skip_instance_def root_instance_def WPTools_init_def
      empty_entry_def stderr_def)

text \<open>
  Claim C5. The cache-hit notice is printed through \<open>stderr(msg, silent)\<close> and a silent
  instance suppresses it. The skip-list notice is printed through \<open>stderr(msg)\<close>, without
  the flag: a silent instance prints it all the same.
\<close>

theorem C5_skip_notice_ignores_silent:
  "silent (flags st) \<Longrightarrow>
     (cached st action \<and> action \<noteq> ''imageinfo'' \<longrightarrow>
        diag (snd (WPTools_get env m action show proxy timeout st)) = diag st)
     \<and> (\<not> cached st action \<and> action \<in> set (skip (flags st)) \<longrightarrow>
        diag (snd (WPTools_get env m action show proxy timeout st))
          = diag st @ [''+ skipping '' @ action])"
  by (simp add: get_skip get_cache_hit stderr_def)

theorem C5_witness:
  "silent (flags skip_instance)
   \<and> diag skip_instance = []
   \<and> diag (snd (WPTools_get sample_env (RESTBase_methods sample_env) ''restbase'' True None 0
                  skip_instance))
       = [''+ skipping restbase'']"
proof -
  have s: "silent (flags skip_instance)"
    by (simp add: skip_instance_def)
  have a: "\<not> cached skip_instance ''restbase'' \<and> ''restbase'' \<in> set (skip (flags skip_instance))"
    by (simp add: cached_def skip_instance_def root_instance_def WPTools_init_def)
  have d: "diag skip_instance = []"
    by (simp add: skip_instance_def root_instance_def WPTools_init_def)
  from C5_skip_notice_ignores_silent[OF s, of "''restbase''" sample_env
         "RESTBase_methods sample_env" True None 0] a d s
  show ?thesis by simp
qed

section \<open>What the normalizer leaves alone\<close>

lemma only_data_refl [simp]: "only_data st st"
  by (simp add: only_data_def)

lemma only_data_trans: "only_data a b \<Longrightarrow> only_data b c \<Longrightarrow> only_data a c"
  by (metis (no_types, lifting) only_data_def wpstate.surjective wpstate.update_convs(2))

lemma only_data_set_data [simp]: "only_data st (set_data k v st)"
  by (simp add: only_data_def set_data_def)

lemma only_data_fields:
  assumes "only_data st st'"
  shows "cache st' = cache st" "sent st' = sent st" "flags st' = flags st"
    "params st' = params st" "diag st' = diag st"
proof -
  have "st' = st\<lparr>data := data st'\<rparr>" using assms by (simp add: only_data_def)
  then have e: "cache st' = cache (st\<lparr>data := data st'\<rparr>)" "sent st' = sent (st\<lparr>data := data st'\<rparr>)"
    "flags st' = flags (st\<lparr>data := data st'\<rparr>)" "params st' = params (st\<lparr>data := data st'\<rparr>)"
    "diag st' = diag (st\<lparr>data := data st'\<rparr>)"
    by simp_all
  show "cache st' = cache st" "sent st' = sent st" "flags st' = flags st"
    "params st' = params st" "diag st' = diag st"
    using e by simp_all
qed

lemma only_data_and_then:
  assumes "only_data st (snd r)" "\<And>s. only_data s (snd (f s))"
  shows "only_data st (snd (and_then r f))"
proof (cases r)
  case (Pair x s)
  show ?thesis
  proof (cases x)
    case (Inl e)
    with Pair assms(1) show ?thesis by (simp add: and_then_def)
  next
    case (Inr u)
    with Pair have "snd (and_then r f) = snd (f s)" by (simp add: and_then_def)
    with Pair assms(1) assms(2)[of s] show ?thesis
      by (metis only_data_trans snd_conv)
  qed
qed

lemma only_data_append_image: "only_data st (snd (append_image img st))"
  by (simp add: append_image_def split: option.splits json.splits)

lemma only_data_unpack_shape: "only_data st (snd (unpack_shape kind w shape st))"
  by (simp add: unpack_shape_def only_data_append_image split: sum.splits json.splits)

lemma only_data_unpack_images: "only_data st (snd (RESTBase_unpack_images rdata st))"
proof -
  have first: "only_data st (snd (unpack_shape kind w shape
                 (if c then set_data ''image'' (JList []) st else st)))" for kind w shape c
    using only_data_trans[OF only_data_set_data only_data_unpack_shape]
    by (simp add: only_data_unpack_shape)
  show ?thesis
    unfolding RESTBase_unpack_images_def Let_def
    by (intro only_data_and_then only_data_unpack_shape first)
qed

lemma only_data_set_plain_fields: "only_data st (set_plain_fields res st)"
  unfolding set_plain_fields_def
  by (meson only_data_set_data only_data_trans)

lemma only_data_set_modified: "only_data st (snd (set_modified res st))"
  by (simp add: set_modified_def Let_def split: option.splits json.splits)

lemma only_data_set_lead: "only_data st (snd (set_lead res st))"
  by (simp add: set_lead_def split: sum.splits json.splits)

lemma only_data_set_title: "only_data st (snd (set_title res st))"
  by (simp add: set_title_def Let_def split: json.splits)

lemma only_data_set_wikibase: "only_data st (snd (set_wikibase env res st))"
  unfolding set_wikibase_def Let_def
  by (auto split: sum.splits intro: only_data_trans[OF only_data_set_data only_data_set_data])

lemma only_data_set_urls: "only_data st (snd (set_urls env st))"
  unfolding set_urls_def Let_def
  by (auto split: option.splits intro: only_data_trans[OF only_data_set_data only_data_set_data])

lemma only_data_extraction:
  "only_data st
     (snd (and_then (and_then (and_then (and_then (and_then
            (set_modified res (set_plain_fields res st))
            (set_lead res))
            (set_title res))
            (set_wikibase env res))
            (set_urls env))
            (RESTBase_unpack_images res)))"
  by (intro only_data_and_then only_data_set_lead only_data_set_title only_data_set_wikibase
      only_data_set_urls only_data_unpack_images
      only_data_trans[OF only_data_set_plain_fields only_data_set_modified])

text \<open>\<open>_handle_response\<close> either leaves the instance as it is, or stores the HTML body, or
  prints the listing and drops the \<open>restbase\<close> entry.\<close>

lemma handle_response_effect:
  "snd (RESTBase_handle_response env st) = st
   \<or> (\<exists>v. snd (RESTBase_handle_response env st) = set_data ''html'' v st)
   \<or> (\<exists>msg. snd (RESTBase_handle_response env st)
         = (stderr msg False st)\<lparr>cache := AList.delete ''restbase'' (cache st)\<rparr>)"
proof (cases "map_of (cache st) ''restbase''")
  case None
  then show ?thesis by (simp add: RESTBase_handle_response_def)
next
  case c: (Some c)
  show ?thesis
  proof (cases "info c")
    case None
    with c show ?thesis by (simp add: RESTBase_handle_response_def)
  next
    case i: (Some nfo)
    show ?thesis
    proof (cases "prefix ''text/html'' (content nfo)")
      case True
      with c i show ?thesis
        by (auto simp: RESTBase_handle_response_def split: option.splits body.splits)
    next
      case html: False
      show ?thesis
      proof (cases "WPTools_load_response env ''restbase'' st")
        case (Inl e)
        with c i html show ?thesis by (simp add: RESTBase_handle_response_def)
      next
        case r: (Inr res)
        show ?thesis
        proof (cases "status nfo = 404")
          case True
          with c i html r show ?thesis
            by (simp add: RESTBase_handle_response_def split: option.splits)
        next
          case ok: False
          show ?thesis
          proof (cases "endpoint (params st) = Some ''/page/''")
            case True
            with c i html r ok show ?thesis
              by (cases res) (auto simp: RESTBase_handle_response_def)
          next
            case False
            with c i html r ok show ?thesis by (simp add: RESTBase_handle_response_def)
          qed
        qed
      qed
    qed
  qed
qed

lemma handle_response_frame:
  "sent (snd (RESTBase_handle_response env st)) = sent st"
  "flags (snd (RESTBase_handle_response env st)) = flags st"
  "params (snd (RESTBase_handle_response env st)) = params st"
  "a \<noteq> ''restbase'' \<Longrightarrow>
     map_of (cache (snd (RESTBase_handle_response env st))) a = map_of (cache st) a"
  using handle_response_effect[where env=env and st=st]
  by (auto simp: set_data_def delete_conv')

lemma set_restbase_data_after:
  "\<exists>s1. s1 = snd (RESTBase_handle_response env st)
        \<and> only_data s1 (snd (RESTBase_set_restbase_data env st))"
proof -
  obtain x s1 where h: "RESTBase_handle_response env st = (x, s1)"
    by (cases "RESTBase_handle_response env st")
  have "only_data s1 (snd (RESTBase_set_restbase_data env st))"
    unfolding RESTBase_set_restbase_data_def h
    by (auto split: sum.splits option.splits json.splits simp: only_data_extraction)
  with h show ?thesis by simp
qed

lemma set_restbase_data_frame:
  "sent (snd (RESTBase_set_restbase_data env st)) = sent st"
  "flags (snd (RESTBase_set_restbase_data env st)) = flags st"
  "params (snd (RESTBase_set_restbase_data env st)) = params st"
  "a \<noteq> ''restbase'' \<Longrightarrow>
     map_of (cache (snd (RESTBase_set_restbase_data env st))) a = map_of (cache st) a"
  using set_restbase_data_after[where env=env and st=st] handle_response_frame[where env=env and st=st]
  by (auto dest: only_data_fields)

section \<open>A fetch that reaches the transport\<close>

lemma map_entry_update:
  "AList.map_entry k f (AList.update k v al) = AList.update k (f v) al"
  by (induction al) auto

lemma request_frame [simp]:
  "WPTools_request proxy timeout (st\<lparr>cache := c\<rparr>) = WPTools_request proxy timeout st"
  by (simp add: WPTools_request_def)

lemma restbase_query_frame [simp]:
  "RESTBase_query env action (st\<lparr>cache := c\<rparr>) = RESTBase_query env action st"
  by (simp add: RESTBase_query_def split: option.splits)

text \<open>The instance as \<open>_get\<close> hands it to \<open>_set_data\<close> on the first fetch of an action.\<close>

lemma get_first_fetch:
  assumes "\<not> cached st action" "action \<notin> set (skip (flags st))"
    and "m_query m action (st\<lparr>cache := AList.update action empty_entry (cache st)\<rparr>) = Inr q"
    and "http_get env (length (sent st)) (WPTools_request proxy timeout st) q = Inr (r, nfo)"
  shows "WPTools_get env m action show proxy timeout st =
     (case m_set_data m action
             (st\<lparr>sent := sent st @ [q],
                  cache := AList.update action
                      \<lparr>query = Some q, response = Some r, info = Some nfo\<rparr> (cache st)\<rparr>) of
        (Inl e, st5) \<Rightarrow> (Inl e, st5)
      | (Inr u, st5) \<Rightarrow> (Inr (), if show then WPTools_show env False st5 else st5))"
  using assms
  by (simp add: WPTools_get_def Let_def map_entry_update empty_entry_def)

lemma handle_response_malformed:
  assumes "map_of (cache st) ''restbase'' = Some c" "query c = Some q" "response c = Some r"
    "info c = Some nfo" "body_truthy r" "\<not> prefix ''text/html'' (content nfo)"
    "json_loads env r = None"
  shows "RESTBase_handle_response env st
           = (Inl (ValueError (str_replace ''&format=json'' '''' q)), st)"
proof -
  have "WPTools_load_response env ''restbase'' st
          = Inl (ValueError (str_replace ''&format=json'' '''' q))"
    using load_response_cases[OF assms(1,2,3), of env] assms(5,7) by simp
  with assms(1,4,6) show ?thesis
    by (simp add: RESTBase_handle_response_def)
qed

lemma set_restbase_data_malformed:
  assumes "map_of (cache st) ''restbase'' = Some c" "query c = Some q" "response c = Some r"
    "info c = Some nfo" "body_truthy r" "\<not> prefix ''text/html'' (content nfo)"
    "json_loads env r = None"
  shows "RESTBase_set_restbase_data env st
           = (Inl (ValueError (str_replace ''&format=json'' '''' q)), st)"
  using handle_response_malformed[OF assms]
  by (simp add: RESTBase_set_restbase_data_def)

lemma get_restbase_malformed:
  assumes "\<not> cached st ''restbase''" "''restbase'' \<notin> set (skip (flags st))"
    and "RESTBase_query env ''restbase'' st = Inr q"
    and "http_get env (length (sent st)) (WPTools_request proxy timeout st) q = Inr (r, nfo)"
    and "body_truthy r" "\<not> prefix ''text/html'' (content nfo)" "json_loads env r = None"
  shows "WPTools_get env (RESTBase_methods env) ''restbase'' show proxy timeout st
           = (Inl (ValueError (str_replace ''&format=json'' '''' q)),
              st\<lparr>sent := sent st @ [q],
                 cache := AList.update ''restbase''
                      \<lparr>query = Some q, response = Some r, info = Some nfo\<rparr> (cache st)\<rparr>)"
proof -
  let ?st4 = "st\<lparr>sent := sent st @ [q],
               cache := AList.update ''restbase''
                 \<lparr>query = Some q, response = Some r, info = Some nfo\<rparr> (cache st)\<rparr>"
  have q: "m_query (RESTBase_methods env) ''restbase''
             (st\<lparr>cache := AList.update ''restbase'' empty_entry (cache st)\<rparr>) = Inr q"
    using assms(3) by (simp add: RESTBase_methods_def)
  have c: "map_of (cache ?st4) ''restbase''
             = Some \<lparr>query = Some q, response = Some r, info = Some nfo\<rparr>"
    by (simp add: update_conv')
  have "RESTBase_set_restbase_data env ?st4
          = (Inl (ValueError (str_replace ''&format=json'' '''' q)), ?st4)"
    by (rule set_restbase_data_malformed[OF c _ _ _ assms(5,6,7)]) simp_all
  then show ?thesis
    unfolding get_first_fetch[OF assms(1,2) q assms(4)]
    by (simp add: RESTBase_methods_def)
qed

text \<open>
  Claim C9. A cached body that is not empty and does not parse makes \<open>_load_response\<close>
  raise the malformed-response error, for every action. For the \<open>restbase\<close> action with a
  content type other than HTML, the normalizer \<open>_set_restbase_data\<close> raises it and leaves
  the whole instance as it was; and a fetch through \<open>_get\<close> (what \<open>get_restbase\<close> runs once
  the endpoint is resolved) that receives such a body raises it with \<open>data\<close> as before the
  call.
\<close>

theorem C9_malformed_body_leaves_data:
  "(\<forall>action c q r.
      map_of (cache st) action = Some c \<and> query c = Some q \<and> response c = Some r
      \<and> body_truthy r \<and> json_loads env r = None \<longrightarrow>
      WPTools_load_response env action st
        = Inl (ValueError (str_replace ''&format=json'' '''' q)))
   \<and> (\<forall>c q r nfo.
      map_of (cache st) ''restbase'' = Some c \<and> query c = Some q \<and> response c = Some r
      \<and> info c = Some nfo \<and> body_truthy r \<and> \<not> prefix ''text/html'' (content nfo)
      \<and> json_loads env r = None \<longrightarrow>
      RESTBase_set_restbase_data env st
        = (Inl (ValueError (str_replace ''&format=json'' '''' q)), st))
   \<and> (\<forall>q r nfo.
      \<not> cached st ''restbase'' \<and> ''restbase'' \<notin> set (skip (flags st))
      \<and> RESTBase_query env ''restbase'' st = Inr q
      \<and> http_get env (length (sent st)) (WPTools_request proxy timeout st) q = Inr (r, nfo)
      \<and> body_truthy r \<and> \<not> prefix ''text/html'' (content nfo)
      \<and> json_loads env r = None \<longrightarrow>
      fst (WPTools_get env (RESTBase_methods env) ''restbase'' show proxy timeout st)
        = Inl (ValueError (str_replace ''&format=json'' '''' q))
      \<and> data (snd (WPTools_get env (RESTBase_methods env) ''restbase'' show proxy timeout st))
        = data st)"
proof (intro conjI allI impI)
  fix action c q r
  assume "map_of (cache st) action = Some c \<and> query c = Some q \<and> response c = Some r
      \<and> body_truthy r \<and> json_loads env r = None"
  then show "WPTools_load_response env action st
        = Inl (ValueError (str_replace ''&format=json'' '''' q))"
    using load_response_cases[of st action c q r env] by simp
next
  fix c q r nfo
  assume "map_of (cache st) ''restbase'' = Some c \<and> query c = Some q \<and> response c = Some r
      \<and> info c = Some nfo \<and> body_truthy r \<and> \<not> prefix ''text/html'' (content nfo)
      \<and> json_loads env r = None"
  then show "RESTBase_set_restbase_data env st
        = (Inl (ValueError (str_replace ''&format=json'' '''' q)), st)"
    using set_restbase_data_malformed[of st c q r nfo env] by simp
next
  fix q r nfo
  assume h: "\<not> cached st ''restbase'' \<and> ''restbase'' \<notin> set (skip (flags st))
      \<and> RESTBase_query env ''restbase'' st = Inr q
      \<and> http_get env (length (sent st)) (WPTools_request proxy timeout st) q = Inr (r, nfo)
      \<and> body_truthy r \<and> \<not> prefix ''text/html'' (content nfo)
      \<and> json_loads env r = None"
  have g: "WPTools_get env (RESTBase_methods env) ''restbase'' show proxy timeout st
           = (Inl (ValueError (str_replace ''&format=json'' '''' q)),
              st\<lparr>sent := sent st @ [q],
                 cache := AList.update ''restbase''
                      \<lparr>query = Some q, response = Some r, info = Some nfo\<rparr> (cache st)\<rparr>)"
    using h by (intro get_restbase_malformed) simp_all
  show "fst (WPTools_get env (RESTBase_methods env) ''restbase'' show proxy timeout st)
        = Inl (ValueError (str_replace ''&format=json'' '''' q))"
    by (simp add: g)
  show "data (snd (WPTools_get env (RESTBase_methods env) ''restbase'' show proxy timeout st))
        = data st"
    by (simp add: g)
qed

theorem C9_witness:
  "fst (WPTools_get sample_env (RESTBase_methods sample_env) ''restbase'' True None 0
          broken_instance)
     = Inl (ValueError ''https://en.wikipedia.org/api/rest_v1/page/summary/Broken'')
   \<and> data (snd (WPTools_get sample_env (RESTBase_methods sample_env) ''restbase'' True None 0
                  broken_instance)) = data broken_instance"
proof -
  have h: "\<not> cached broken_instance ''restbase''
      \<and> ''restbase'' \<notin> set (skip (flags broken_instance))
      \<and> RESTBase_query sample_env ''restbase'' broken_instance
          = Inr ''https://en.wikipedia.org/api/rest_v1/page/summary/Broken''
      \<and> http_get sample_env (length (sent broken_instance))
            (WPTools_request None 0 broken_instance)
            ''https://en.wikipedia.org/api/rest_v1/page/summary/Broken''
          = Inr (Text ''{ truncated'', ok_json)
      \<and> body_truthy (Text ''{ truncated'')
      \<and> \<not> prefix ''text/html'' (content ok_json)
      \<and> json_loads sample_env (Text ''{ truncated'') = None"
    by (simp add: cached_def broken_instance_def root_instance_def WPTools_init_def kw0_def
        RESTBase_query_def sample_env_def ok_json_def str_truthy_def)
  have s: "str_replace ''&format=json'' ''''
             ''https://en.wikipedia.org/api/rest_v1/page/summary/Broken''
           = ''https://en.wikipedia.org/api/rest_v1/page/summary/Broken''"
    by (simp add: str_replace_def)
  note t = C9_malformed_body_leaves_data[of broken_instance sample_env None 0 True,
      THEN conjunct2, THEN conjunct2, rule_format, OF h]
  from t show ?thesis by (simp only: s)
qed

section \<open>Growth of the cache\<close>

lemma parse_endpoint_frame [simp]:
  "cache (snd (RESTBase_parse_endpoint ep ttl st)) = cache st"
  "data (snd (RESTBase_parse_endpoint ep ttl st)) = data st"
  "sent (snd (RESTBase_parse_endpoint ep ttl st)) = sent st"
  "flags (snd (RESTBase_parse_endpoint ep ttl st)) = flags st"
  by (simp_all add: RESTBase_parse_endpoint_def Let_def)

lemma cached_map_entry [simp]:
  "(map_of (AList.map_entry k f al) a = None) = (map_of al a = None)"
  by (simp add: map_of_map_entry split: option.splits)

text \<open>Every way \<open>_get\<close> can leave the instance: after a notice (cache hit or skip), after a
  failed query builder, after a failed transport call, and after \<open>_set_data\<close>, with or
  without the dump.\<close>

lemma get_state_cases:
  fixes st :: wpstate and action :: string
  defines "st1 \<equiv> (if cached st action then st
                   else st\<lparr>cache := AList.update action empty_entry (cache st)\<rparr>)"
  assumes notice: "\<And>msg sil. P (stderr msg sil st1)"
    and qerr: "P st1"
    and terr: "\<And>q. P (st1\<lparr>sent := sent st @ [q],
                  cache := AList.map_entry action (\<lambda>c. c\<lparr>query := Some q\<rparr>) (cache st1)\<rparr>)"
    and normal: "\<And>q r nfo. P (snd (m_set_data m action
                  (st1\<lparr>sent := sent st @ [q],
                       cache := AList.map_entry action
                         (\<lambda>c. c\<lparr>response := Some r, info := Some nfo\<rparr>)
                         (AList.map_entry action (\<lambda>c. c\<lparr>query := Some q\<rparr>) (cache st1))\<rparr>)))"
    and shown: "\<And>q r nfo. P (WPTools_show env False (snd (m_set_data m action
                  (st1\<lparr>sent := sent st @ [q],
                       cache := AList.map_entry action
                         (\<lambda>c. c\<lparr>response := Some r, info := Some nfo\<rparr>)
                         (AList.map_entry action (\<lambda>c. c\<lparr>query := Some q\<rparr>) (cache st1))\<rparr>))))"
  shows "P (snd (WPTools_get env m action show proxy timeout st))"
proof (cases "cached st action \<and> action \<noteq> ''imageinfo''")
  case True
  then have "st1 = st" by (simp add: st1_def)
  with True notice[of "''+ '' @ action @ '' results in cache''" "silent (flags st)"]
  show ?thesis by (simp add: WPTools_get_def)
next
  case nohit: False
  have sent1: "sent st1 = sent st" by (simp add: st1_def)
  show ?thesis
  proof (cases "action \<in> set (skip (flags st))")
    case True
    then have "action \<in> set (skip (flags st1))" by (simp add: st1_def)
    with nohit have "WPTools_get env m action show proxy timeout st
                = (Inr (), stderr (''+ skipping '' @ action) False st1)"
      unfolding WPTools_get_def st1_def[symmetric] by (auto simp: Let_def)
    with notice[of "''+ skipping '' @ action" False] show ?thesis by simp
  next
    case noskip: False
    then have noskip1: "action \<notin> set (skip (flags st1))" by (simp add: st1_def)
    show ?thesis
    proof (cases "m_query m action st1")
      case (Inl e)
      with nohit noskip1 have "WPTools_get env m action show proxy timeout st = (Inl e, st1)"
        unfolding WPTools_get_def st1_def[symmetric] by (auto simp: Let_def)
      with qerr show ?thesis by simp
    next
      case q: (Inr q)
      show ?thesis
      proof (cases "http_get env (length (sent st1))
                      (WPTools_request proxy timeout
                         (st1\<lparr>cache := AList.map_entry action (\<lambda>c. c\<lparr>query := Some q\<rparr>)
                                         (cache st1)\<rparr>)) q")
        case (Inl e)
        have "WPTools_get env m action show proxy timeout st
                = (Inl e, st1\<lparr>sent := sent st @ [q],
                     cache := AList.map_entry action (\<lambda>c. c\<lparr>query := Some q\<rparr>) (cache st1)\<rparr>)"
          using nohit noskip1 q Inl sent1
          unfolding WPTools_get_def st1_def[symmetric] by (auto simp: Let_def)
        with terr[of q] show ?thesis by simp
      next
        case (Inr a)
        obtain r nfo where a: "a = (r, nfo)" by (cases a)
        let ?st4 = "st1\<lparr>sent := sent st @ [q],
                       cache := AList.map_entry action
                         (\<lambda>c. c\<lparr>response := Some r, info := Some nfo\<rparr>)
                         (AList.map_entry action (\<lambda>c. c\<lparr>query := Some q\<rparr>) (cache st1))\<rparr>"
        obtain x st5 where sd: "m_set_data m action ?st4 = (x, st5)"
          by (cases "m_set_data m action ?st4")
        have g: "WPTools_get env m action show proxy timeout st
                = (case x of Inl e \<Rightarrow> (Inl e, st5)
                   | Inr u \<Rightarrow> (Inr (), if show then WPTools_show env False st5 else st5))"
          using nohit noskip1 q Inr a sent1 sd
          unfolding WPTools_get_def st1_def[symmetric] by (auto simp: Let_def)
        from normal[where q=q and r=r and nfo=nfo] shown[where q=q and r=r and nfo=nfo] sd
        have "P st5" "P (WPTools_show env False st5)" by simp_all
        then show ?thesis
          unfolding g by (cases x) simp_all
      qed
    qed
  qed
qed

lemma get_keeps_cached:
  assumes "\<And>s b. cached s b \<Longrightarrow> cached (snd (m_set_data m action s)) b"
    and "cached st a"
  shows "cached (snd (WPTools_get env m action show proxy timeout st)) a"
proof (rule get_state_cases)
  let ?st1 = "if cached st action then st
              else st\<lparr>cache := AList.update action empty_entry (cache st)\<rparr>"
  have c1: "cached ?st1 a"
    using assms(2) by (simp add: cached_def update_conv')
  show "cached (stderr msg sil ?st1) a" for msg sil
    using c1 by (simp add: cached_def)
  show "cached ?st1 a" by (rule c1)
  show "cached (?st1\<lparr>sent := sent st @ [q],
           cache := AList.map_entry action (\<lambda>c. c\<lparr>query := Some q\<rparr>) (cache ?st1)\<rparr>) a" for q
    using c1 by (simp add: cached_def)
  have c4: "cached (?st1\<lparr>sent := sent st @ [q],
              cache := AList.map_entry action (\<lambda>c. c\<lparr>response := Some r, info := Some nfo\<rparr>)
                (AList.map_entry action (\<lambda>c. c\<lparr>query := Some q\<rparr>) (cache ?st1))\<rparr>) a"
    for q r nfo
    using c1 by (simp add: cached_def)
  show "cached (snd (m_set_data m action (?st1\<lparr>sent := sent st @ [q],
              cache := AList.map_entry action (\<lambda>c. c\<lparr>response := Some r, info := Some nfo\<rparr>)
                (AList.map_entry action (\<lambda>c. c\<lparr>query := Some q\<rparr>) (cache ?st1))\<rparr>))) a"
    for q r nfo
    by (rule assms(1)[OF c4])
  then show "cached (WPTools_show env False (snd (m_set_data m action (?st1\<lparr>sent := sent st @ [q],
              cache := AList.map_entry action (\<lambda>c. c\<lparr>response := Some r, info := Some nfo\<rparr>)
                (AList.map_entry action (\<lambda>c. c\<lparr>query := Some q\<rparr>) (cache ?st1))\<rparr>)))) a"
    for q r nfo
    by (simp add: cached_def)
qed

lemma get_keeps_other_entries:
  assumes "\<And>s. map_of (cache (snd (m_set_data m action s))) a = map_of (cache s) a"
    and "a \<noteq> action"
  shows "map_of (cache (snd (WPTools_get env m action show proxy timeout st))) a
           = map_of (cache st) a"
  by (rule get_state_cases) (simp_all add: assms update_conv' map_of_map_entry)

text \<open>A fetch that gets past the cache test and the skip-list hands exactly one query to
  the transport, whatever the transport and the normalizer do with it.\<close>

lemma get_sent:
  assumes frame: "\<And>a s. sent (snd (m_set_data m a s)) = sent s"
    and nohit: "\<not> (cached st action \<and> action \<noteq> ''imageinfo'')"
    and noskip: "action \<notin> set (skip (flags st))"
    and q: "m_query m action
              (if cached st action then st
               else st\<lparr>cache := AList.update action empty_entry (cache st)\<rparr>) = Inr q"
  shows "sent (snd (WPTools_get env m action show proxy timeout st)) = sent st @ [q]"
proof -
  define st1 where "st1 = (if cached st action then st
                   else st\<lparr>cache := AList.update action empty_entry (cache st)\<rparr>)"
  have sent1: "sent st1 = sent st" and noskip1: "action \<notin> set (skip (flags st1))"
    using noskip by (simp_all add: st1_def)
  have q1: "m_query m action st1 = Inr q" using q by (simp add: st1_def)
  show ?thesis
  proof (cases "http_get env (length (sent st1))
                  (WPTools_request proxy timeout
                     (st1\<lparr>cache := AList.map_entry action (\<lambda>c. c\<lparr>query := Some q\<rparr>)
                                     (cache st1)\<rparr>)) q")
    case (Inl e)
    have "WPTools_get env m action show proxy timeout st
            = (Inl e, st1\<lparr>sent := sent st @ [q],
                 cache := AList.map_entry action (\<lambda>c. c\<lparr>query := Some q\<rparr>) (cache st1)\<rparr>)"
      using nohit noskip1 q1 Inl sent1
      unfolding WPTools_get_def st1_def[symmetric] by (auto simp: Let_def)
    then show ?thesis by simp
  next
    case (Inr a)
    obtain r nfo where a: "a = (r, nfo)" by (cases a)
    let ?st4 = "st1\<lparr>sent := sent st @ [q],
                   cache := AList.map_entry action
                     (\<lambda>c. c\<lparr>response := Some r, info := Some nfo\<rparr>)
                     (AList.map_entry action (\<lambda>c. c\<lparr>query := Some q\<rparr>) (cache st1))\<rparr>"
    obtain x st5 where sd: "m_set_data m action ?st4 = (x, st5)"
      by (cases "m_set_data m action ?st4")
    have g: "WPTools_get env m action show proxy timeout st
            = (case x of Inl e \<Rightarrow> (Inl e, st5)
               | Inr u \<Rightarrow> (Inr (), if show then WPTools_show env False st5 else st5))"
      using nohit noskip1 q1 Inr a sent1 sd
      unfolding WPTools_get_def st1_def[symmetric] by (auto simp: Let_def)
    have "sent st5 = sent st @ [q]"
      using frame[of action ?st4] sd by simp
    then show ?thesis
      unfolding g by (cases x) simp_all
  qed
qed

lemma get_restbase_keeps_entries:
  assumes "map_of (cache st) a = Some c"
  shows "map_of (cache (snd (WPTools_get env (RESTBase_methods env) ''restbase'' show proxy
                               timeout st))) a = Some c"
proof (cases "cached st ''restbase''")
  case True
  then show ?thesis using assms by (simp add: get_cache_hit)
next
  case False
  with assms have ne: "a \<noteq> ''restbase''" by (auto simp: cached_def)
  have "map_of (cache (snd (WPTools_get env (RESTBase_methods env) ''restbase'' show proxy
                               timeout st))) a = map_of (cache st) a"
    by (rule get_keeps_other_entries)
       (simp_all add: RESTBase_methods_def set_restbase_data_frame(4)[OF ne] ne)
  with assms show ?thesis by simp
qed

lemma listing_cached_reached:
  "root_instance\<lparr>sent := sent root_instance @ [''https://en.wikipedia.org/api/rest_v1/page/''],
      cache := AList.update ''restbase''
        \<lparr>query = Some ''https://en.wikipedia.org/api/rest_v1/page/'',
         response = Some (Text ''listing''), info = Some ok_json\<rparr> (cache root_instance)\<rparr>
     = listing_cached"
  by (simp add: listing_cached_def root_instance_def WPTools_init_def)

text \<open>
  Claim C6, as the code has it. The cache loses an entry in one place: on the root listing
  \<open>_handle_response\<close> deletes the \<open>restbase\<close> entry, the one the running fetch has just
  stored. Nothing else is ever removed: \<open>_handle_response\<close> leaves every other entry as it
  is, \<open>_get\<close> keeps every cached action cached when \<open>_set_data\<close> does, and every entry
  that is there before a call of \<open>get_restbase\<close> is there, unchanged, after it, whether the
  call returns or raises.
\<close>

theorem C6_cache_entries_kept:
  "(\<forall>a c. map_of (cache st) a = Some c \<longrightarrow>
      map_of (cache (snd (RESTBase_get_restbase env ep show proxy timeout st))) a = Some c)
   \<and> (\<forall>a. a \<noteq> ''restbase'' \<longrightarrow>
      map_of (cache (snd (RESTBase_handle_response env st))) a = map_of (cache st) a)
   \<and> ((\<forall>s b. cached s b \<longrightarrow> cached (snd (m_set_data m action s)) b) \<longrightarrow>
      (\<forall>a. cached st a \<longrightarrow> cached (snd (WPTools_get env m action show proxy timeout st)) a))"
proof (intro conjI allI impI)
  fix a c
  assume h: "map_of (cache st) a = Some c"
  show "map_of (cache (snd (RESTBase_get_restbase env ep show proxy timeout st))) a = Some c"
  proof (cases "str_truthy ep")
    case False
    then show ?thesis
      using get_restbase_keeps_entries[OF h] by (simp add: RESTBase_get_restbase_def)
  next
    case True
    obtain x st1 where p: "RESTBase_parse_endpoint ep (title (params st)) st = (x, st1)"
      by (cases "RESTBase_parse_endpoint ep (title (params st)) st")
    have c1: "cache st1 = cache st"
      using parse_endpoint_frame(1)[of ep "title (params st)" st] p by simp
    show ?thesis
    proof (cases x)
      case (Inl e)
      with True p c1 h show ?thesis by (simp add: RESTBase_get_restbase_def)
    next
      case (Inr ep1)
      have "map_of (cache (st1\<lparr>params := (params st1)\<lparr>endpoint := Some ep1\<rparr>\<rparr>)) a = Some c"
        using h c1 by simp
      from get_restbase_keeps_entries[OF this] True p Inr show ?thesis
        by (simp add: RESTBase_get_restbase_def)
    qed
  qed
next
  fix a :: string
  assume "a \<noteq> ''restbase''"
  then show "map_of (cache (snd (RESTBase_handle_response env st))) a = map_of (cache st) a"
    by (rule handle_response_frame(4))
next
  fix a
  assume "\<forall>s b. cached s b \<longrightarrow> cached (snd (m_set_data m action s)) b" "cached st a"
  then show "cached (snd (WPTools_get env m action show proxy timeout st)) a"
    by (intro get_keeps_cached) blast+
qed

theorem C6_witness:
  "map_of (cache (snd (RESTBase_get_restbase sample_env None True None 0 parse_cached))) ''parse''
     = Some \<lparr>query = Some ''https://en.wikipedia.org/w/api.php?action=parse&format=json&page=X'',
             response = Some (Text ''batch''), info = Some ok_json\<rparr>"
proof -
  have c: "map_of (cache parse_cached) ''parse''
             = Some \<lparr>query = Some ''https://en.wikipedia.org/w/api.php?action=parse&format=json&page=X'',
                     response = Some (Text ''batch''), info = Some ok_json\<rparr>"
    by (simp add: parse_cached_def)
  show ?thesis
    by (rule C6_cache_entries_kept[of parse_cached sample_env None True None 0,
          THEN conjunct1, rule_format, OF c])
qed

text \<open>The claim as stated fails: the root listing removes the entry that is in the cache.\<close>

theorem C6_counterexample:
  "cached listing_cached ''restbase''
   \<and> fst (RESTBase_handle_response sample_env listing_cached) = Inr None
   \<and> cache (snd (RESTBase_handle_response sample_env listing_cached)) = []"
proof -
  have c: "map_of (cache listing_cached) ''restbase''
             = Some \<lparr>query = Some ''https://en.wikipedia.org/api/rest_v1/page/'',
                     response = Some (Text ''listing''), info = Some ok_json\<rparr>"
    by (simp add: listing_cached_def)
  have l: "WPTools_load_response sample_env ''restbase'' listing_cached
             = Inr (JObj [(''items'', JList [JStr ''html'', JStr ''summary''])])"
    by (simp add: load_response_cases[OF c] sample_env_def dict_get_def)
  have e: "endpoint (params listing_cached) = Some ''/page/''"
    by (simp add: listing_cached_def root_instance_def)
  have "RESTBase_handle_response sample_env listing_cached
          = (Inr None,
             (stderr (''RESTBase /page/ entry points: '' @ py_str sample_env
                        (dict_get [(''items'', JList [JStr ''html'', JStr ''summary''])] ''items''))
                False listing_cached)\<lparr>cache := AList.delete ''restbase'' (cache listing_cached)\<rparr>)"
    by (simp add: RESTBase_handle_response_def c l e ok_json_def)
  then show ?thesis
    by (simp add: cached_def c) (simp add: listing_cached_def AList.delete_eq)
qed

section \<open>Network calls per fetch\<close>

text \<open>
  Claim C1, as the code has it. A fetch of a cached action other than \<open>imageinfo\<close> returns
  at once: the instance is as before but for the notice, so nothing reaches the transport.
  A first fetch of an action that is not in the skip-list and whose query string builds
  makes exactly one network call, and a second fetch right after it makes none, provided
  the first left the cache entry in place. A fetch of \<open>imageinfo\<close> makes one network call
  every time, cached or not, provided \<open>imageinfo\<close> is not in the skip-list and its query
  string builds. (\<open>_set_data\<close> is taken to make no network call of its own.)
\<close>

theorem C1_network_calls_per_fetch:
  assumes "\<forall>a s. sent (snd (m_set_data m a s)) = sent s"
  shows "(cached st action \<and> action \<noteq> ''imageinfo'' \<longrightarrow>
            WPTools_get env m action show proxy timeout st
              = (Inr (), stderr (''+ '' @ action @ '' results in cache'') (silent (flags st)) st)
            \<and> sent (snd (WPTools_get env m action show proxy timeout st)) = sent st)
    \<and> (\<forall>q. \<not> cached st action \<and> action \<noteq> ''imageinfo'' \<and> action \<notin> set (skip (flags st))
           \<and> m_query m action (st\<lparr>cache := AList.update action empty_entry (cache st)\<rparr>) = Inr q
           \<and> cached (snd (WPTools_get env m action show proxy timeout st)) action \<longrightarrow>
            sent (snd (WPTools_get env m action show proxy timeout st)) = sent st @ [q]
            \<and> sent (snd (WPTools_get env m action show proxy timeout
                            (snd (WPTools_get env m action show proxy timeout st))))
                = sent st @ [q])
    \<and> (\<forall>q. ''imageinfo'' \<notin> set (skip (flags st))
           \<and> m_query m ''imageinfo''
                (if cached st ''imageinfo'' then st
                 else st\<lparr>cache := AList.update ''imageinfo'' empty_entry (cache st)\<rparr>) = Inr q \<longrightarrow>
            sent (snd (WPTools_get env m ''imageinfo'' show proxy timeout st)) = sent st @ [q])"
proof (intro conjI allI impI)
  assume "cached st action \<and> action \<noteq> ''imageinfo''"
  then show "WPTools_get env m action show proxy timeout st
              = (Inr (), stderr (''+ '' @ action @ '' results in cache'') (silent (flags st)) st)"
    and "sent (snd (WPTools_get env m action show proxy timeout st)) = sent st"
    by (simp_all add: get_cache_hit)
next
  fix q
  assume h: "\<not> cached st action \<and> action \<noteq> ''imageinfo'' \<and> action \<notin> set (skip (flags st))
           \<and> m_query m action (st\<lparr>cache := AList.update action empty_entry (cache st)\<rparr>) = Inr q
           \<and> cached (snd (WPTools_get env m action show proxy timeout st)) action"
  show first: "sent (snd (WPTools_get env m action show proxy timeout st)) = sent st @ [q]"
    using assms h by (intro get_sent) simp_all
  show "sent (snd (WPTools_get env m action show proxy timeout
                    (snd (WPTools_get env m action show proxy timeout st))))
          = sent st @ [q]"
    using h first by (simp add: get_cache_hit)
next
  fix q
  assume h: "''imageinfo'' \<notin> set (skip (flags st))
           \<and> m_query m ''imageinfo''
                (if cached st ''imageinfo'' then st
                 else st\<lparr>cache := AList.update ''imageinfo'' empty_entry (cache st)\<rparr>) = Inr q"
  show "sent (snd (WPTools_get env m ''imageinfo'' show proxy timeout st)) = sent st @ [q]"
    using assms h by (intro get_sent) simp_all
qed

lemma adams_first_fetch:
  "WPTools_get sample_env (RESTBase_methods sample_env) ''restbase'' False None 0 adams_instance
     = (Inr (),
        adams_instance\<lparr>
          cache := [(''restbase'',
             \<lparr>query = Some ''https://en.wikipedia.org/api/rest_v1/page/summary/Douglas_Adams'',
              response = Some (Text ''summary''), info = Some ok_json\<rparr>)],
          data := [(''description'', JNull), (''pageid'', JNull),
                   (''exrest'', JStr ''English writer''), (''exhtml'', JNull),
                   (''title'', JStr ''Douglas_Adams''),
                   (''url'', JStr ''https://en.wikipedia.org/wiki/Douglas_Adams''),
                   (''url_raw'', JStr ''https://en.wikipedia.org/wiki/Douglas_Adams?action=raw''),
                   (''image'',
                    JList [JObj [(''kind'', JStr ''restbase-original''), (''source'', JStr ''o.jpg''),
                                 (''width'', JInt 640), (''url'', JStr ''o.jpg'')],
                           JObj [(''kind'', JStr ''restbase-thumb''), (''source'', JStr ''t.jpg''),
                                 (''width'', JInt 64), (''url'', JStr ''t.jpg'')]])],
          sent := [''https://en.wikipedia.org/api/rest_v1/page/summary/Douglas_Adams'']\<rparr>)"
  by (simp add: adams_instance_def cached_def root_instance_def WPTools_init_def kw0_def
      RESTBase_query_def sample_env_def ok_json_def str_truthy_def RESTBase_methods_def
      WPTools_get_def Let_def empty_entry_def RESTBase_set_restbase_data_def
      RESTBase_handle_response_def WPTools_load_response_def WPTools_request_def
      str_replace_def dict_get_def and_then_def set_plain_fields_def set_data_def
      set_modified_def set_lead_def set_title_def set_wikibase_def set_urls_def
      RESTBase_unpack_images_def unpack_shape_def append_image_def py_or_def)

theorem C1_witness:
  "sent (snd (WPTools_get sample_env (RESTBase_methods sample_env) ''restbase'' False None 0
                (snd (WPTools_get sample_env (RESTBase_methods sample_env) ''restbase'' False
                        None 0 adams_instance))))
     = [''https://en.wikipedia.org/api/rest_v1/page/summary/Douglas_Adams'']"
proof -
  have frame: "\<forall>a s. sent (snd (m_set_data (RESTBase_methods sample_env) a s)) = sent s"
    by (simp add: RESTBase_methods_def set_restbase_data_frame(1))
  have h: "\<not> cached adams_instance ''restbase'' \<and> ''restbase'' \<noteq> ''imageinfo''
           \<and> ''restbase'' \<notin> set (skip (flags adams_instance))
           \<and> m_query (RESTBase_methods sample_env) ''restbase''
                (adams_instance\<lparr>cache := AList.update ''restbase'' empty_entry
                                            (cache adams_instance)\<rparr>)
              = Inr ''https://en.wikipedia.org/api/rest_v1/page/summary/Douglas_Adams''
           \<and> cached (snd (WPTools_get sample_env (RESTBase_methods sample_env) ''restbase''
                             False None 0 adams_instance)) ''restbase''"
    unfolding adams_first_fetch
    by (simp add: cached_def adams_instance_def root_instance_def WPTools_init_def kw0_def
        RESTBase_methods_def RESTBase_query_def sample_env_def str_truthy_def)
  note t = C1_network_calls_per_fetch[OF frame, of adams_instance "''restbase''" sample_env
      False None 0, THEN conjunct2, THEN conjunct1, rule_format, OF h, THEN conjunct2]
  have "sent adams_instance = []"
    by (simp add: adams_instance_def root_instance_def WPTools_init_def)
  with t show ?thesis by simp
qed

lemma root_listing_fetch:
  "WPTools_get sample_env (RESTBase_methods sample_env) ''restbase'' True None 0
     (root_instance\<lparr>diag := d, sent := s\<rparr>)
     = (Inr (), root_instance\<lparr>diag := d @ [''RESTBase /page/ entry points: [...]''],
                  sent := s @ [''https://en.wikipedia.org/api/rest_v1/page/'']\<rparr>)"
  by (simp add: cached_def root_instance_def WPTools_init_def kw0_def RESTBase_query_def
      sample_env_def ok_json_def str_truthy_def RESTBase_methods_def WPTools_get_def Let_def
      empty_entry_def RESTBase_set_restbase_data_def RESTBase_handle_response_def
      WPTools_load_response_def WPTools_request_def str_replace_def dict_get_def stderr_def
      WPTools_show_def AList.delete_eq)

text \<open>
  The claim as stated fails three ways. Two fetches of the root listing in succession make
  two network calls, because the first discards its cache entry. Two fetches of a
  skip-listed action make none. And a fetch of \<open>imageinfo\<close> makes none when \<open>imageinfo\<close>
  is in the skip-list.
\<close>

theorem C1_counterexample:
  "sent (snd (WPTools_get sample_env (RESTBase_methods sample_env) ''restbase'' True None 0
                (snd (WPTools_get sample_env (RESTBase_methods sample_env) ''restbase'' True
                        None 0 root_instance))))
     = [''https://en.wikipedia.org/api/rest_v1/page/'',
        ''https://en.wikipedia.org/api/rest_v1/page/'']
   \<and> sent (snd (WPTools_get sample_env (RESTBase_methods sample_env) ''restbase'' True None 0
                (snd (WPTools_get sample_env (RESTBase_methods sample_env) ''restbase'' True
                        None 0 skip_instance))))
     = []
   \<and> sent (snd (WPTools_get sample_env (RESTBase_methods sample_env) ''imageinfo'' True None 0
                  imageinfo_skipped))
     = []"
proof (intro conjI)
  have r: "root_instance = root_instance\<lparr>diag := [], sent := []\<rparr>"
    by (simp add: root_instance_def WPTools_init_def)
  show "sent (snd (WPTools_get sample_env (RESTBase_methods sample_env) ''restbase'' True None 0
                (snd (WPTools_get sample_env (RESTBase_methods sample_env) ''restbase'' True
                        None 0 root_instance))))
     = [''https://en.wikipedia.org/api/rest_v1/page/'',
        ''https://en.wikipedia.org/api/rest_v1/page/'']"
    by (subst r) (simp add: root_listing_fetch)
  have a: "\<not> cached skip_instance ''restbase''"
    "''restbase'' \<in> set (skip (flags skip_instance))" "sent skip_instance = []"
    by (simp_all add: cached_def skip_instance_def root_instance_def WPTools_init_def)
  show "sent (snd (WPTools_get sample_env (RESTBase_methods sample_env) ''restbase'' True None 0
                (snd (WPTools_get sample_env (RESTBase_methods sample_env) ''restbase'' True
                        None 0 skip_instance))))
     = []"
    by (simp add: get_skip[OF a(1,2)] get_cache_hit cached_def update_conv' a(3))
  have b: "\<not> cached imageinfo_skipped ''imageinfo''"
    "''imageinfo'' \<in> set (skip (flags imageinfo_skipped))" "sent imageinfo_skipped = []"
    by (simp_all add: cached_def imageinfo_skipped_def root_instance_def WPTools_init_def)
  show "sent (snd (WPTools_get sample_env (RESTBase_methods sample_env) ''imageinfo'' True None 0
                  imageinfo_skipped))
     = []"
    by (simp add: get_skip[OF b(1,2)] b(3))
qed

section \<open>Image unpacking\<close>

lemma unpack_shape_dict:
  "kvs \<noteq> [] \<Longrightarrow>
     unpack_shape kind w (JObj kvs) st = append_image (image_record kind w kvs) st"
  by (simp add: unpack_shape_def image_record_def Let_def)

lemma unpack_shape_falsy: "\<not> truthy shape \<Longrightarrow> unpack_shape kind w shape st = (Inr (), st)"
  by (simp add: unpack_shape_def)

lemma foldl_update_other:
  "k \<notin> fst ` set kvs \<Longrightarrow>
     map_of (foldl (\<lambda>acc (k, v). AList.update k v acc) d kvs) k = map_of d k"
  by (induction kvs arbitrary: d) (auto simp: update_conv')

lemma image_record_kind:
  assumes "map_of kvs ''kind'' = None"
  shows "dict_get (image_record kind w kvs) ''kind'' = JStr kind"
proof -
  have "''kind'' \<notin> fst ` set kvs"
    using assms by (simp add: map_of_eq_None_iff)
  then have "map_of (foldl (\<lambda>acc (k, v). AList.update k v acc) [(''kind'', JStr kind)] kvs) ''kind''
               = Some (JStr kind)"
    by (simp add: foldl_update_other)
  then show ?thesis
    by (simp add: image_record_def Let_def dict_get_def update_conv')
qed

lemma append_image_list:
  "map_of (data st) ''image'' = Some (JList xs) \<Longrightarrow>
     append_image img st = (Inr (), set_data ''image'' (JList (xs @ [JObj img])) st)"
  by (simp add: append_image_def)

lemma image_after_set_data [simp]:
  "map_of (data (set_data ''image'' v st)) ''image'' = Some v"
  by (simp add: set_data_def update_conv')

text \<open>Whatever the reply holds and however the call ends, a list under \<open>image\<close> is only
  extended, and no other key of \<open>data\<close> changes.\<close>

lemma unpack_shape_effect:
  assumes "map_of (data st) ''image'' = Some (JList xs)"
  shows "snd (unpack_shape kind w shape st) = st
         \<or> (\<exists>img. snd (unpack_shape kind w shape st)
                     = set_data ''image'' (JList (xs @ [JObj img])) st)"
proof (cases "dict_update [(''kind'', JStr kind)] shape")
  case (Inl e)
  then show ?thesis by (simp add: unpack_shape_def)
next
  case (Inr img)
  with assms show ?thesis
    by (cases shape) (auto simp: unpack_shape_def append_image_def)
qed

lemma unpack_shape_extends:
  assumes "map_of (data st) ''image'' = Some (JList xs)"
  shows "\<exists>new. map_of (data (snd (unpack_shape kind w shape st))) ''image''
                 = Some (JList (xs @ new))"
  using unpack_shape_effect[OF assms, of kind w shape] assms
  by auto

lemma and_then_extends:
  assumes "\<exists>new. map_of (data (snd r)) ''image'' = Some (JList (xs @ new))"
    and "\<And>s ys. map_of (data s) ''image'' = Some (JList ys) \<Longrightarrow>
            \<exists>new. map_of (data (snd (f s))) ''image'' = Some (JList (ys @ new))"
  shows "\<exists>new. map_of (data (snd (and_then r f))) ''image'' = Some (JList (xs @ new))"
proof (cases r)
  case (Pair x s)
  show ?thesis
  proof (cases x)
    case (Inl e)
    with Pair assms(1) show ?thesis by (simp add: and_then_def)
  next
    case (Inr u)
    from assms(1) Pair obtain n1 where n1: "map_of (data s) ''image'' = Some (JList (xs @ n1))"
      by auto
    from assms(2)[OF n1] obtain n2
      where "map_of (data (snd (f s))) ''image'' = Some (JList ((xs @ n1) @ n2))" by blast
    with Pair Inr show ?thesis by (auto simp: and_then_def)
  qed
qed

lemma unpack_images_extends:
  assumes "map_of (data st) ''image'' = Some (JList xs)"
  shows "\<exists>new. map_of (data (snd (RESTBase_unpack_images rdata st))) ''image''
                 = Some (JList (xs @ new))"
  unfolding RESTBase_unpack_images_def Let_def
  using assms
  by (intro and_then_extends unpack_shape_extends) simp_all

lemma unpack_images_two_shapes:
  assumes old: "(map_of (data st) ''image'' = None \<and> old = [])
                \<or> map_of (data st) ''image'' = Some (JList old)"
    and "dict_get rdata ''originalimage'' = JObj orig" "orig \<noteq> []"
    and "dict_get rdata ''thumbnail'' = JObj thumb" "thumb \<noteq> []"
    and "\<not> truthy (dict_get rdata ''image'')"
  shows "fst (RESTBase_unpack_images rdata st) = Inr ()"
    and "map_of (data (snd (RESTBase_unpack_images rdata st))) ''image''
           = Some (JList (old @ [JObj (image_record ''restbase-original'' True orig),
                                 JObj (image_record ''restbase-thumb'' True thumb)]))"
proof -
  define st1 where "st1 = (if (truthy (dict_get rdata ''image'')
                               \<or> truthy (dict_get rdata ''originalimage'')
                               \<or> truthy (dict_get rdata ''thumbnail''))
                              \<and> map_of (data st) ''image'' = None
                           then set_data ''image'' (JList []) st else st)"
  have i1: "map_of (data st1) ''image'' = Some (JList old)"
    using old assms(2,3) by (auto simp: st1_def)
  define st2 where "st2 = set_data ''image''
      (JList (old @ [JObj (image_record ''restbase-original'' True orig)])) st1"
  have s1: "unpack_shape ''restbase-image'' False (dict_get rdata ''image'') st1 = (Inr (), st1)"
    using assms(6) by (rule unpack_shape_falsy)
  have s2: "unpack_shape ''restbase-original'' True (dict_get rdata ''originalimage'') st1
              = (Inr (), st2)"
    by (simp add: assms(2) unpack_shape_dict[OF assms(3)] append_image_list[OF i1] st2_def)
  have i2: "map_of (data st2) ''image''
              = Some (JList (old @ [JObj (image_record ''restbase-original'' True orig)]))"
    by (simp add: st2_def)
  have s3: "unpack_shape ''restbase-thumb'' True (dict_get rdata ''thumbnail'') st2
              = (Inr (), set_data ''image''
                   (JList ((old @ [JObj (image_record ''restbase-original'' True orig)])
                           @ [JObj (image_record ''restbase-thumb'' True thumb)])) st2)"
    by (simp add: assms(4) unpack_shape_dict[OF assms(5)] append_image_list[OF i2])
  have r: "RESTBase_unpack_images rdata st
             = (Inr (), set_data ''image''
                   (JList ((old @ [JObj (image_record ''restbase-original'' True orig)])
                           @ [JObj (image_record ''restbase-thumb'' True thumb)])) st2)"
    unfolding RESTBase_unpack_images_def Let_def st1_def[symmetric]
    by (simp add: s1 s2 s3 and_then_def)
  show "fst (RESTBase_unpack_images rdata st) = Inr ()"
    by (simp add: r)
  show "map_of (data (snd (RESTBase_unpack_images rdata st))) ''image''
           = Some (JList (old @ [JObj (image_record ''restbase-original'' True orig),
                                 JObj (image_record ''restbase-thumb'' True thumb)]))"
    by (simp add: r)
qed

lemma unpack_images_third_shape:
  assumes old: "(map_of (data st) ''image'' = None \<and> old = [])
                \<or> map_of (data st) ''image'' = Some (JList old)"
    and "dict_get rdata ''image'' = JObj img" "img \<noteq> []"
    and "\<not> truthy (dict_get rdata ''originalimage'')"
    and "\<not> truthy (dict_get rdata ''thumbnail'')"
  shows "fst (RESTBase_unpack_images rdata st) = Inr ()"
    and "map_of (data (snd (RESTBase_unpack_images rdata st))) ''image''
           = Some (JList (old @ [JObj (image_record ''restbase-image'' False img)]))"
proof -
  define st1 where "st1 = (if (truthy (dict_get rdata ''image'')
                               \<or> truthy (dict_get rdata ''originalimage'')
                               \<or> truthy (dict_get rdata ''thumbnail''))
                              \<and> map_of (data st) ''image'' = None
                           then set_data ''image'' (JList []) st else st)"
  have i1: "map_of (data st1) ''image'' = Some (JList old)"
    using old assms(2,3) by (auto simp: st1_def)
  define st2 where "st2 = set_data ''image''
      (JList (old @ [JObj (image_record ''restbase-image'' False img)])) st1"
  have s1: "unpack_shape ''restbase-image'' False (dict_get rdata ''image'') st1 = (Inr (), st2)"
    by (simp add: assms(2) unpack_shape_dict[OF assms(3)] append_image_list[OF i1] st2_def)
  have r: "RESTBase_unpack_images rdata st = (Inr (), st2)"
    unfolding RESTBase_unpack_images_def Let_def st1_def[symmetric]
    by (simp add: s1 unpack_shape_falsy[OF assms(4)] unpack_shape_falsy[OF assms(5)] and_then_def)
  show "fst (RESTBase_unpack_images rdata st) = Inr ()"
    by (simp add: r)
  show "map_of (data (snd (RESTBase_unpack_images rdata st))) ''image''
           = Some (JList (old @ [JObj (image_record ''restbase-image'' False img)]))"
    by (simp add: r st2_def)
qed

lemma and_then_keeps:
  assumes "Q (snd r)" "\<And>s. Q s \<Longrightarrow> Q (snd (f s))"
  shows "Q (snd (and_then r f))"
  using assms by (cases r; cases "fst r") (auto simp: and_then_def)

lemma unpack_shape_other_keys:
  assumes "k \<noteq> ''image''"
  shows "map_of (data (snd (unpack_shape kind w shape st))) k = map_of (data st) k"
proof (cases "dict_update [(''kind'', JStr kind)] shape")
  case (Inl e)
  then show ?thesis by (simp add: unpack_shape_def)
next
  case (Inr img)
  with assms show ?thesis
    by (cases shape)
       (auto simp: unpack_shape_def append_image_def set_data_def update_conv'
             split: option.splits json.splits)
qed

lemma unpack_images_other_keys:
  assumes "k \<noteq> ''image''"
  shows "map_of (data (snd (RESTBase_unpack_images rdata st))) k = map_of (data st) k"
  unfolding RESTBase_unpack_images_def Let_def
  by (intro and_then_keeps[where Q = "\<lambda>s. map_of (data s) k = map_of (data st) k"])
     (simp_all add: unpack_shape_other_keys[OF assms] set_data_def update_conv' assms)

text \<open>
  Claim C8, as the code has it. \<open>_unpack_images\<close> only appends: a list under \<open>image\<close> is
  extended at its end and no other key of \<open>data\<close> changes. A reply with an \<open>originalimage\<close>
  and a \<open>thumbnail\<close> object, and no \<open>image\<close> shape, appends exactly two records, in that
  order; they carry the tags \<open>restbase-original\<close> and \<open>restbase-thumb\<close> when neither object
  has a \<open>kind\<close> key of its own (the keys of the shape are written over the tag). A later
  reply that brings the \<open>image\<close> object alone appends one more record behind them. \<open>old\<close>
  is the list before the call, empty when \<open>data\<close> has no \<open>image\<close> yet.
\<close>

theorem C8_images_appended:
  assumes "(map_of (data st) ''image'' = None \<and> old = [])
           \<or> map_of (data st) ''image'' = Some (JList old)"
  shows
   "(\<forall>orig thumb.
       dict_get rdata ''originalimage'' = JObj orig \<and> orig \<noteq> []
       \<and> dict_get rdata ''thumbnail'' = JObj thumb \<and> thumb \<noteq> []
       \<and> \<not> truthy (dict_get rdata ''image'') \<longrightarrow>
       fst (RESTBase_unpack_images rdata st) = Inr ()
       \<and> map_of (data (snd (RESTBase_unpack_images rdata st))) ''image''
           = Some (JList (old @ [JObj (image_record ''restbase-original'' True orig),
                                 JObj (image_record ''restbase-thumb'' True thumb)]))
       \<and> (map_of orig ''kind'' = None \<and> map_of thumb ''kind'' = None \<longrightarrow>
            dict_get (image_record ''restbase-original'' True orig) ''kind''
              = JStr ''restbase-original''
            \<and> dict_get (image_record ''restbase-thumb'' True thumb) ''kind''
              = JStr ''restbase-thumb''))
    \<and> (\<forall>img.
       dict_get rdata ''image'' = JObj img \<and> img \<noteq> []
       \<and> \<not> truthy (dict_get rdata ''originalimage'')
       \<and> \<not> truthy (dict_get rdata ''thumbnail'') \<longrightarrow>
       fst (RESTBase_unpack_images rdata st) = Inr ()
       \<and> map_of (data (snd (RESTBase_unpack_images rdata st))) ''image''
           = Some (JList (old @ [JObj (image_record ''restbase-image'' False img)])))
    \<and> (map_of (data st) ''image'' = Some (JList old) \<longrightarrow>
         (\<exists>new. map_of (data (snd (RESTBase_unpack_images rdata st))) ''image''
                   = Some (JList (old @ new))))
    \<and> (\<forall>k. k \<noteq> ''image'' \<longrightarrow>
         map_of (data (snd (RESTBase_unpack_images rdata st))) k = map_of (data st) k)"
proof (intro conjI allI impI)
  fix orig thumb
  assume h: "dict_get rdata ''originalimage'' = JObj orig \<and> orig \<noteq> []
       \<and> dict_get rdata ''thumbnail'' = JObj thumb \<and> thumb \<noteq> []
       \<and> \<not> truthy (dict_get rdata ''image'')"
  from h have h1: "dict_get rdata ''originalimage'' = JObj orig" and h2: "orig \<noteq> []"
    and h3: "dict_get rdata ''thumbnail'' = JObj thumb" and h4: "thumb \<noteq> []"
    and h5: "\<not> truthy (dict_get rdata ''image'')"
    by simp_all
  show "fst (RESTBase_unpack_images rdata st) = Inr ()"
    by (rule unpack_images_two_shapes(1)[OF assms h1 h2 h3 h4 h5])
  show "map_of (data (snd (RESTBase_unpack_images rdata st))) ''image''
           = Some (JList (old @ [JObj (image_record ''restbase-original'' True orig),
                                 JObj (image_record ''restbase-thumb'' True thumb)]))"
    by (rule unpack_images_two_shapes(2)[OF assms h1 h2 h3 h4 h5])
  assume k: "map_of orig ''kind'' = None \<and> map_of thumb ''kind'' = None"
  show "dict_get (image_record ''restbase-original'' True orig) ''kind''
              = JStr ''restbase-original''"
    using k by (simp add: image_record_kind)
  show "dict_get (image_record ''restbase-thumb'' True thumb) ''kind'' = JStr ''restbase-thumb''"
    using k by (simp add: image_record_kind)
next
  fix img
  assume h: "dict_get rdata ''image'' = JObj img \<and> img \<noteq> []
       \<and> \<not> truthy (dict_get rdata ''originalimage'')
       \<and> \<not> truthy (dict_get rdata ''thumbnail'')"
  from h have h1: "dict_get rdata ''image'' = JObj img" and h2: "img \<noteq> []"
    and h3: "\<not> truthy (dict_get rdata ''originalimage'')"
    and h4: "\<not> truthy (dict_get rdata ''thumbnail'')"
    by simp_all
  show "fst (RESTBase_unpack_images rdata st) = Inr ()"
    by (rule unpack_images_third_shape(1)[OF assms h1 h2 h3 h4])
  show "map_of (data (snd (RESTBase_unpack_images rdata st))) ''image''
           = Some (JList (old @ [JObj (image_record ''restbase-image'' False img)]))"
    by (rule unpack_images_third_shape(2)[OF assms h1 h2 h3 h4])
next
  assume "map_of (data st) ''image'' = Some (JList old)"
  then show "\<exists>new. map_of (data (snd (RESTBase_unpack_images rdata st))) ''image''
                   = Some (JList (old @ new))"
    by (rule unpack_images_extends)
next
  fix k :: string
  assume "k \<noteq> ''image''"
  then show "map_of (data (snd (RESTBase_unpack_images rdata st))) k = map_of (data st) k"
    by (rule unpack_images_other_keys)
qed

theorem C8_witness:
  "map_of (data (snd (RESTBase_unpack_images summary_reply root_instance))) ''image''
     = Some (JList [JObj [(''kind'', JStr ''restbase-original''), (''source'', JStr ''o.jpg''),
                          (''width'', JInt 640), (''url'', JStr ''o.jpg'')],
                    JObj [(''kind'', JStr ''restbase-thumb''), (''source'', JStr ''t.jpg''),
                          (''width'', JInt 64), (''url'', JStr ''t.jpg'')]])
   \<and> map_of (data (snd (RESTBase_unpack_images lead_reply
                          (snd (RESTBase_unpack_images summary_reply root_instance))))) ''image''
     = Some (JList [JObj [(''kind'', JStr ''restbase-original''), (''source'', JStr ''o.jpg''),
                          (''width'', JInt 640), (''url'', JStr ''o.jpg'')],
                    JObj [(''kind'', JStr ''restbase-thumb''), (''source'', JStr ''t.jpg''),
                          (''width'', JInt 64), (''url'', JStr ''t.jpg'')],
                    JObj [(''kind'', JStr ''restbase-image''),
                          (''file'', JStr ''Douglas_adams_portrait.jpg'')]])"
proof -
  let ?o = "[(''source'', JStr ''o.jpg''), (''width'', JInt 640)]"
  let ?t = "[(''source'', JStr ''t.jpg''), (''width'', JInt 64)]"
  let ?i = "[(''file'', JStr ''Douglas_adams_portrait.jpg'')]"
  let ?two = "[JObj (image_record ''restbase-original'' True ?o),
               JObj (image_record ''restbase-thumb'' True ?t)]"
  have a: "(map_of (data root_instance) ''image'' = None \<and> ([]::json list) = [])
           \<or> map_of (data root_instance) ''image'' = Some (JList [])"
    by (simp add: root_instance_def WPTools_init_def)
  have h: "dict_get summary_reply ''originalimage'' = JObj ?o \<and> ?o \<noteq> []
       \<and> dict_get summary_reply ''thumbnail'' = JObj ?t \<and> ?t \<noteq> []
       \<and> \<not> truthy (dict_get summary_reply ''image'')"
    by (simp add: summary_reply_def dict_get_def)
  note first = C8_images_appended[OF a, of summary_reply, THEN conjunct1, rule_format, OF h,
      THEN conjunct2, THEN conjunct1]
  have b: "(map_of (data (snd (RESTBase_unpack_images summary_reply root_instance))) ''image''
              = None \<and> ([] @ ?two) = [])
           \<or> map_of (data (snd (RESTBase_unpack_images summary_reply root_instance))) ''image''
              = Some (JList ([] @ ?two))"
    using first by simp
  have g: "dict_get lead_reply ''image'' = JObj ?i \<and> ?i \<noteq> []
       \<and> \<not> truthy (dict_get lead_reply ''originalimage'')
       \<and> \<not> truthy (dict_get lead_reply ''thumbnail'')"
    by (simp add: lead_reply_def dict_get_def)
  note second = C8_images_appended[OF b, of lead_reply, THEN conjunct2, THEN conjunct1,
      rule_format, OF g, THEN conjunct2]
  have r: "image_record ''restbase-original'' True ?o
             = [(''kind'', JStr ''restbase-original''), (''source'', JStr ''o.jpg''),
                (''width'', JInt 640), (''url'', JStr ''o.jpg'')]"
    "image_record ''restbase-thumb'' True ?t
             = [(''kind'', JStr ''restbase-thumb''), (''source'', JStr ''t.jpg''),
                (''width'', JInt 64), (''url'', JStr ''t.jpg'')]"
    "image_record ''restbase-image'' False ?i
             = [(''kind'', JStr ''restbase-image''),
                (''file'', JStr ''Douglas_adams_portrait.jpg'')]"
    by (simp_all add: image_record_def dict_get_def)
  from first second show ?thesis
    by (simp add: r)
qed

text \<open>The claim as stated fails: two shapes that carry the same \<open>kind\<close> key give two
  records with the same tag.\<close>

theorem C8_counterexample:
  "fst (RESTBase_unpack_images self_tagged_reply root_instance) = Inr ()
   \<and> map_of (data (snd (RESTBase_unpack_images self_tagged_reply root_instance))) ''image''
     = Some (JList [JObj [(''kind'', JStr ''photo''), (''source'', JStr ''o.jpg''),
                          (''url'', JStr ''o.jpg'')],
                    JObj [(''kind'', JStr ''photo''), (''source'', JStr ''t.jpg''),
                          (''url'', JStr ''t.jpg'')]])"
  by (simp add: RESTBase_unpack_images_def self_tagged_reply_def root_instance_def
      WPTools_init_def dict_get_def unpack_shape_def append_image_def set_data_def
      and_then_def Let_def)

section \<open>Normalization\<close>




























end
